theory Spec2Isabelle
  imports Complex_Main
begin

section \<open>Python values\<close>

text \<open>
  The values that cross the gateway are the ones \<^verbatim>\<open>json.loads\<close> produces and
  \<^verbatim>\<open>model_dump\<close> returns: \<^verbatim>\<open>None\<close>, booleans, integers (unbounded), floats,
  strings, lists and dicts with string keys. A dict is an association list in insertion
  order; its keys are distinct and a lookup is \<open>map_of\<close>. A float is carried as the real
  number it denotes: the gateway copies floats and never computes with them. A string is
  carried as the bytes of its UTF-8 encoding; a lone surrogate, which a Python string
  can hold and UTF-8 cannot encode, is carried as the three bytes \<^verbatim>\<open>0xED\<close>,
  \<^verbatim>\<open>0xA0..0xBF\<close>, \<^verbatim>\<open>0x80..0xBF\<close>.
\<close>

datatype json =
    JNull
  | JBool bool
  | JInt int
  | JFloat real
  | JStr string
  | JArr "json list"
  | JObj "(string \<times> json) list"

type_synonym dict = "(string \<times> json) list"

fun is_dict :: "json \<Rightarrow> bool" where
  "is_dict (JObj kvs) = True"
| "is_dict v = False"

text \<open>
  An exception that is raised: the name of its class, whether the class derives from
  \<^verbatim>\<open>Exception\<close> (the class the handlers' \<^verbatim>\<open>except\<close> clauses name; task cancellation
  and interpreter exit derive from \<^verbatim>\<open>BaseException\<close> only), and what \<^verbatim>\<open>str(e)\<close>
  comes to: the string form, or the exception that taking it raises.
\<close>

datatype exn = Raised string bool "exn + string"

fun is_Exception :: "exn \<Rightarrow> bool" where
  "is_Exception (Raised c b s) = b"

text \<open>\<^verbatim>\<open>str(e)\<close>\<close>

fun str_exn :: "exn \<Rightarrow> exn + string" where
  "str_exn (Raised c b s) = s"

section \<open>Request and response models\<close>

text \<open>
  \<^verbatim>\<open>
  class LineItem(BaseModel):
      variant_id: int
      quantity: int
      title: str = "Product"
      price: float = 0.0

  class CreateOrderRequest(BaseModel):
      line_items: List[LineItem]
      customer_email: str
      financial_status: str = "paid"
      test: bool = True

  class GetOrderStatusRequest(BaseModel):
      order_id: int

  class OrderResponse(BaseModel):
      success: bool
      data: dict
      error: Optional[str] = None
  \<close>
\<close>

record LineItem =
  variant_id :: int
  quantity :: int
  title :: string
  price :: real

record CreateOrderRequest =
  line_items :: "LineItem list"
  customer_email :: string
  financial_status :: string
  test :: bool

record GetOrderStatusRequest =
  order_id :: int

record OrderResponse =
  success :: bool
  data :: dict
  error :: "string option"

text \<open>\<^verbatim>\<open>item.model_dump()\<close>: the fields in declaration order.\<close>

definition LineItem_model_dump :: "LineItem \<Rightarrow> json" where
  "LineItem_model_dump item =
     JObj [(''variant_id'', JInt (variant_id item)),
           (''quantity'', JInt (quantity item)),
           (''title'', JStr (title item)),
           (''price'', JFloat (price item))]"

text \<open>
  The serialized form of an \<^verbatim>\<open>OrderResponse\<close> (the route's \<^verbatim>\<open>response_model\<close>):
  every field is written, \<^verbatim>\<open>None\<close> as \<^verbatim>\<open>null\<close>.
\<close>

definition OrderResponse_model_dump :: "OrderResponse \<Rightarrow> json" where
  "OrderResponse_model_dump r =
     JObj [(''success'', JBool (success r)),
           (''data'', JObj (data r)),
           (''error'', (case error r of None \<Rightarrow> JNull | Some s \<Rightarrow> JStr s))]"

section \<open>The collaborators\<close>

text \<open>
  The two delegated capabilities (\<^verbatim>\<open>from shopify_mcp_server import create_order,
  get_order_status\<close>) and the library functions that run in and after the handlers are
  parameters of the model. A capability and \<^verbatim>\<open>json.loads\<close> return a value or raise:
  \<open>Inl\<close> is the exception raised. \<open>dict_type_error_str v\<close> is the string form of the
  \<^verbatim>\<open>ValidationError\<close> that constructing an \<^verbatim>\<open>OrderResponse\<close> raises when \<^verbatim>\<open>data\<close>
  is the non-dict value \<open>v\<close>. \<open>render_error c\<close> is the exception that writing the
  content \<open>c\<close> as the JSON body of the response raises, if it raises one.
\<close>

record env =
  create_order :: "json list \<Rightarrow> string \<Rightarrow> string \<Rightarrow> bool \<Rightarrow> exn + string"
  get_order_status :: "int \<Rightarrow> exn + string"
  json_loads :: "string \<Rightarrow> exn + json"
  dict_type_error_str :: "json \<Rightarrow> string"
  render_error :: "json \<Rightarrow> exn option"

text \<open>The delegated invocations a request makes, in order, with their arguments.\<close>

datatype call =
    CreateOrderCall "json list" string string bool
  | GetOrderStatusCall int

text \<open>
  \<^verbatim>\<open>OrderResponse(success=..., data=..., error=...)\<close>: the field \<^verbatim>\<open>data: dict\<close> accepts
  a dict and nothing else that \<^verbatim>\<open>json.loads\<close> returns. The \<^verbatim>\<open>ValidationError\<close>
  raised otherwise derives from \<^verbatim>\<open>Exception\<close> and has a string form.
\<close>

definition OrderResponse_new :: "env \<Rightarrow> bool \<Rightarrow> json \<Rightarrow> string option \<Rightarrow> exn + OrderResponse" where
  "OrderResponse_new env s d e =
     (case d of
        JObj kvs \<Rightarrow> Inr \<lparr>success = s, data = kvs, error = e\<rparr>
      | _ \<Rightarrow> Inl (Raised ''ValidationError'' True (Inr (dict_type_error_str env d))))"

section \<open>The handlers\<close>

text \<open>
  \<^verbatim>\<open>
  async def root():
      return {"service": ..., "status": "running", "endpoints": {...}}

  async def health_check():
      return {"status": "healthy"}
  \<close>
\<close>

definition root_endpoint :: json where
  "root_endpoint =
     JObj [(''service'', JStr ''Shopify MCP Server HTTP API''),
           (''status'', JStr ''running''),
           (''endpoints'',
              JObj [(''create_order'', JStr ''/api/orders/create''),
                    (''get_order_status'', JStr ''/api/orders/status''),
                    (''health'', JStr ''/health'')])]"

definition health_check :: json where
  "health_check = JObj [(''status'', JStr ''healthy'')]"

text \<open>
  \<^verbatim>\<open>
  async def create_order_endpoint(request: CreateOrderRequest):
      try:
          line_items_dict = [item.model_dump() for item in request.line_items]
          result_json = await create_order(
              line_items=line_items_dict,
              customer_email=request.customer_email,
              financial_status=request.financial_status,
              test=request.test)
          result = json.loads(result_json)
          return OrderResponse(success=True, data=result)
      except Exception as e:
          return OrderResponse(success=False, data={}, error=str(e))
  \<close>
  The handler returns the delegated calls it made and either the response it returns or
  the exception that leaves it. The \<^verbatim>\<open>except\<close> clause catches an exception whose
  class derives from \<^verbatim>\<open>Exception\<close>; any other leaves the handler. Inside the clause
  \<^verbatim>\<open>str(e)\<close> is evaluated outside any \<^verbatim>\<open>try\<close>: what it raises leaves the handler.
\<close>

definition create_order_endpoint ::
    "env \<Rightarrow> CreateOrderRequest \<Rightarrow> call list \<times> (exn + OrderResponse)" where
  "create_order_endpoint env request =
     (let line_items_dict = map LineItem_model_dump (line_items request);
          tried =
            (case create_order env line_items_dict (customer_email request)
                    (financial_status request) (test request) of
               Inl e \<Rightarrow> Inl e
             | Inr result_json \<Rightarrow>
                 (case json_loads env result_json of
                    Inl e \<Rightarrow> Inl e
                  | Inr result \<Rightarrow> OrderResponse_new env True result None))
      in ([CreateOrderCall line_items_dict (customer_email request)
              (financial_status request) (test request)],
          (case tried of
             Inr response \<Rightarrow> Inr response
           | Inl e \<Rightarrow>
               if is_Exception e
               then (case str_exn e of
                       Inl e' \<Rightarrow> Inl e'
                     | Inr message \<Rightarrow> OrderResponse_new env False (JObj []) (Some message))
               else Inl e)))"

text \<open>
  \<^verbatim>\<open>
  async def get_order_status_endpoint(request: GetOrderStatusRequest):
      try:
          result_json = await get_order_status(order_id=request.order_id)
          result = json.loads(result_json)
          return OrderResponse(success=True, data=result)
      except Exception as e:
          return OrderResponse(success=False, data={}, error=str(e))
  \<close>
\<close>

definition get_order_status_endpoint ::
    "env \<Rightarrow> GetOrderStatusRequest \<Rightarrow> call list \<times> (exn + OrderResponse)" where
  "get_order_status_endpoint env request =
     (let tried =
            (case get_order_status env (order_id request) of
               Inl e \<Rightarrow> Inl e
             | Inr result_json \<Rightarrow>
                 (case json_loads env result_json of
                    Inl e \<Rightarrow> Inl e
                  | Inr result \<Rightarrow> OrderResponse_new env True result None))
      in ([GetOrderStatusCall (order_id request)],
          (case tried of
             Inr response \<Rightarrow> Inr response
           | Inl e \<Rightarrow>
               if is_Exception e
               then (case str_exn e of
                       Inl e' \<Rightarrow> Inl e'
                     | Inr message \<Rightarrow> OrderResponse_new env False (JObj []) (Some message))
               else Inl e)))"

section \<open>Structural validation\<close>

text \<open>
  Before a handler runs, the framework validates the JSON body against the handler's
  request model and rejects the request with status 422 when validation fails. The
  shape of that validation is fixed by the class declarations above: which fields are
  required, which have a default, that \<^verbatim>\<open>line_items\<close> is a list and that each element
  is a \<^verbatim>\<open>LineItem\<close>; keys the model does not declare are ignored. The validators of
  the four leaf types belong to the validation library and are parameters: each returns
  the validated value, or the type of the error.

  A validation error is the location of the offending value and the error's type; the
  errors of all fields are collected.
\<close>

datatype loc_item = Field string | Index nat

type_synonym loc = "loc_item list"

type_synonym verr = "loc \<times> string"

type_synonym 'a validation = "verr list + 'a"

record validators =
  int_validator :: "json \<Rightarrow> string + int"
  str_validator :: "json \<Rightarrow> string + string"
  float_validator :: "json \<Rightarrow> string + real"
  bool_validator :: "json \<Rightarrow> string + bool"

fun errors_of :: "'a validation \<Rightarrow> verr list" where
  "errors_of (Inl es) = es"
| "errors_of (Inr x) = []"

definition leaf :: "(json \<Rightarrow> string + 'a) \<Rightarrow> loc \<Rightarrow> json \<Rightarrow> 'a validation" where
  "leaf val loc v = (case val v of Inl t \<Rightarrow> Inl [(loc, t)] | Inr x \<Rightarrow> Inr x)"

text \<open>A field declared without a default: a missing key is an error.\<close>

definition required_field ::
    "(loc \<Rightarrow> json \<Rightarrow> 'a validation) \<Rightarrow> loc \<Rightarrow> dict \<Rightarrow> string \<Rightarrow> 'a validation" where
  "required_field val loc kvs k =
     (case map_of kvs k of
        None \<Rightarrow> Inl [(loc @ [Field k], ''missing'')]
      | Some v \<Rightarrow> val (loc @ [Field k]) v)"

text \<open>A field declared with a default: a missing key gives the default, unvalidated.\<close>

definition optional_field ::
    "(loc \<Rightarrow> json \<Rightarrow> 'a validation) \<Rightarrow> loc \<Rightarrow> dict \<Rightarrow> string \<Rightarrow> 'a \<Rightarrow> 'a validation" where
  "optional_field val loc kvs k dflt =
     (case map_of kvs k of
        None \<Rightarrow> Inr dflt
      | Some v \<Rightarrow> val (loc @ [Field k]) v)"

text \<open>
  A model with four fields: every field is validated, and the model is built when all
  four are valid; otherwise the errors of all fields are reported, in field order.
\<close>

definition validated4 ::
    "'a validation \<Rightarrow> 'b validation \<Rightarrow> 'c validation \<Rightarrow> 'd validation \<Rightarrow>
     ('a \<Rightarrow> 'b \<Rightarrow> 'c \<Rightarrow> 'd \<Rightarrow> 'm) \<Rightarrow> 'm validation" where
  "validated4 a b c d model =
     (case (a, b, c, d) of
        (Inr a', Inr b', Inr c', Inr d') \<Rightarrow> Inr (model a' b' c' d')
      | _ \<Rightarrow> Inl (errors_of a @ errors_of b @ errors_of c @ errors_of d))"

definition validate_LineItem :: "validators \<Rightarrow> loc \<Rightarrow> json \<Rightarrow> LineItem validation" where
  "validate_LineItem V loc j =
     (case j of
        JObj kvs \<Rightarrow>
          validated4
            (required_field (leaf (int_validator V)) loc kvs ''variant_id'')
            (required_field (leaf (int_validator V)) loc kvs ''quantity'')
            (optional_field (leaf (str_validator V)) loc kvs ''title'' ''Product'')
            (optional_field (leaf (float_validator V)) loc kvs ''price'' 0)
            (\<lambda>v q t p. \<lparr>variant_id = v, quantity = q, title = t, price = p\<rparr>)
      | _ \<Rightarrow> Inl [(loc, ''model_attributes_type'')])"

text \<open>The elements of \<^verbatim>\<open>List[LineItem]\<close>, each at its index, in order.\<close>

fun validate_items :: "validators \<Rightarrow> loc \<Rightarrow> nat \<Rightarrow> json list \<Rightarrow> LineItem list validation" where
  "validate_items V loc i [] = Inr []"
| "validate_items V loc i (j # js) =
     (case (validate_LineItem V (loc @ [Index i]) j, validate_items V loc (Suc i) js) of
        (Inr x, Inr xs) \<Rightarrow> Inr (x # xs)
      | (a, b) \<Rightarrow> Inl (errors_of a @ errors_of b))"

definition validate_line_items :: "validators \<Rightarrow> loc \<Rightarrow> json \<Rightarrow> LineItem list validation" where
  "validate_line_items V loc j =
     (case j of
        JArr js \<Rightarrow> validate_items V loc 0 js
      | _ \<Rightarrow> Inl [(loc, ''list_type'')])"

definition validate_CreateOrderRequest :: "validators \<Rightarrow> json \<Rightarrow> CreateOrderRequest validation" where
  "validate_CreateOrderRequest V body =
     (case body of
        JObj kvs \<Rightarrow>
          validated4
            (required_field (validate_line_items V) [Field ''body''] kvs ''line_items'')
            (required_field (leaf (str_validator V)) [Field ''body''] kvs ''customer_email'')
            (optional_field (leaf (str_validator V)) [Field ''body''] kvs
               ''financial_status'' ''paid'')
            (optional_field (leaf (bool_validator V)) [Field ''body''] kvs ''test'' True)
            (\<lambda>l c f t.
               \<lparr>line_items = l, customer_email = c, financial_status = f, test = t\<rparr>)
      | _ \<Rightarrow> Inl [([Field ''body''], ''model_attributes_type'')])"

definition validate_GetOrderStatusRequest ::
    "validators \<Rightarrow> json \<Rightarrow> GetOrderStatusRequest validation" where
  "validate_GetOrderStatusRequest V body =
     (case body of
        JObj kvs \<Rightarrow>
          (case required_field (leaf (int_validator V)) [Field ''body''] kvs ''order_id'' of
             Inr i \<Rightarrow> Inr \<lparr>order_id = i\<rparr>
           | Inl es \<Rightarrow> Inl es)
      | _ \<Rightarrow> Inl [([Field ''body''], ''model_attributes_type'')])"

section \<open>The application\<close>

text \<open>
  The four routes. A request that fails validation is answered with status 422 and the
  list of errors, and the handler does not run. The response a handler returns is
  serialized (\<^verbatim>\<open>response_model=OrderResponse\<close>) and written as the JSON body of a
  response with status 200; when writing it raises, or when an exception leaves the
  handler, no envelope is sent and the exception is the server's to answer (status 500).
  The two static routes return constants, whose text is ASCII and always written.
\<close>

datatype request =
    GET_root
  | GET_health
  | POST_orders_create json
  | POST_orders_status json

datatype http_response =
    JSONResponse nat json
  | RequestValidationError "verr list"
  | InternalServerError exn

definition respond ::
    "env \<Rightarrow> call list \<times> (exn + OrderResponse) \<Rightarrow> call list \<times> http_response" where
  "respond env r =
     (case r of
        (calls, Inr response) \<Rightarrow>
          (calls,
           (case render_error env (OrderResponse_model_dump response) of
              None \<Rightarrow> JSONResponse 200 (OrderResponse_model_dump response)
            | Some e \<Rightarrow> InternalServerError e))
      | (calls, Inl e) \<Rightarrow> (calls, InternalServerError e))"

definition app :: "validators \<Rightarrow> env \<Rightarrow> request \<Rightarrow> call list \<times> http_response" where
  "app V env req =
     (case req of
        GET_root \<Rightarrow> ([], JSONResponse 200 root_endpoint)
      | GET_health \<Rightarrow> ([], JSONResponse 200 health_check)
      | POST_orders_create body \<Rightarrow>
          (case validate_CreateOrderRequest V body of
             Inl es \<Rightarrow> ([], RequestValidationError es)
           | Inr request \<Rightarrow> respond env (create_order_endpoint env request))
      | POST_orders_status body \<Rightarrow>
          (case validate_GetOrderStatusRequest V body of
             Inl es \<Rightarrow> ([], RequestValidationError es)
           | Inr request \<Rightarrow> respond env (get_order_status_endpoint env request)))"

section \<open>What a handler's try block raises\<close>

text \<open>
  The exception raised inside a handler's \<^verbatim>\<open>try\<close> block, if one is, given the
  outcome of the delegated call: the exception the call raised, or the one
  \<^verbatim>\<open>json.loads\<close> raised on the text returned, or the \<^verbatim>\<open>ValidationError\<close> of
  constructing the success response from a parsed value that is not a dict. The
  theorems use it to say which exception a failure envelope reports.
\<close>

definition try_block_raises :: "env \<Rightarrow> exn + string \<Rightarrow> exn option" where
  "try_block_raises env outcome =
     (case outcome of
        Inl e \<Rightarrow> Some e
      | Inr result_json \<Rightarrow>
          (case json_loads env result_json of
             Inl e \<Rightarrow> Some e
           | Inr result \<Rightarrow>
               if is_dict result then None
               else Some (Raised ''ValidationError'' True (Inr (dict_type_error_str env result)))))"

section \<open>Sample collaborators and requests\<close>

text \<open>
  The theorems below hold for every environment and every choice of leaf validators.
  The closed examples run them at the following ones, each of which follows the library
  on the inputs named here and is not meant beyond them.

  \<open>sample_json_loads\<close> gives the value \<^verbatim>\<open>json.loads\<close> returns on the six texts listed
  and takes any other text as one that does not start a JSON value.
  \<open>sample_dict_type_error_str\<close> abbreviates the library's message to its first line.
  \<open>sample_render_error\<close> fails on a content one of whose strings holds a lone
  surrogate, which the UTF-8 encoding of the body refuses, and writes any other content.
\<close>

definition sample_json_loads :: "string \<Rightarrow> exn + json" where
  \<open>sample_json_loads s =
     (if s = ''{"id": 1}'' then Inr (JObj [(''id'', JInt 1)])
      else if s = ''{}'' then Inr (JObj [])
      else if s = ''[]'' then Inr (JArr [])
      else if s = ''null'' then Inr JNull
      else if s = ''7'' then Inr (JInt 7)
      else if s = ''"ok"'' then Inr (JStr ''ok'')
      else Inl (Raised ''JSONDecodeError'' True
                  (Inr ''Expecting value: line 1 column 1 (char 0)'')))\<close>

definition sample_dict_type_error_str :: "json \<Rightarrow> string" where
  "sample_dict_type_error_str v = ''1 validation error for OrderResponse''"

text \<open>The strings of a value: those it holds and the keys of its dicts.\<close>

fun json_strings :: "json \<Rightarrow> string list" where
  "json_strings (JStr s) = [s]"
| "json_strings (JArr js) = concat (map json_strings js)"
| "json_strings (JObj kvs) = concat (map (\<lambda>(k, v). k # json_strings v) kvs)"
| "json_strings v = []"

fun has_lone_surrogate :: "string \<Rightarrow> bool" where
  "has_lone_surrogate (a # b # cs) =
     (a = CHR 0xED \<and> of_char b div (32 :: nat) = 5 \<or> has_lone_surrogate (b # cs))"
| "has_lone_surrogate cs = False"

text \<open>
  The string \<^verbatim>\<open>"\ud800"\<close>, and an exception that stands for the one the library
  raises when it is to write such a string (the library's class and message may differ).
\<close>

definition lone_surrogate :: string where
  "lone_surrogate = [CHR 0xED, CHR 0xA0, CHR 0x80]"

definition surrogate_refused :: exn where
  "surrogate_refused = Raised ''UnicodeEncodeError'' True (Inr ''surrogates not allowed'')"

definition sample_render_error :: "json \<Rightarrow> exn option" where
  "sample_render_error content =
     (if list_ex has_lone_surrogate (json_strings content) then Some surrogate_refused
      else None)"

text \<open>An environment whose two delegated capabilities end with the given outcome.\<close>

definition sample_env :: "exn + string \<Rightarrow> env" where
  "sample_env outcome =
     \<lparr>create_order = (\<lambda>line_items customer_email financial_status test. outcome),
      get_order_status = (\<lambda>order_id. outcome),
      json_loads = sample_json_loads,
      dict_type_error_str = sample_dict_type_error_str,
      render_error = sample_render_error\<rparr>"

text \<open>
  Four exceptions a delegated call may raise: an ordinary one, one whose string form is
  a lone surrogate, a task cancellation (which derives from \<^verbatim>\<open>BaseException\<close> only),
  and one whose \<^verbatim>\<open>__str__\<close> returns \<^verbatim>\<open>None\<close>, so that \<^verbatim>\<open>str(e)\<close> raises a
  \<^verbatim>\<open>TypeError\<close>.
\<close>

definition not_found :: exn where
  "not_found = Raised ''Exception'' True (Inr ''not found'')"

definition surrogate_error :: exn where
  "surrogate_error = Raised ''Exception'' True (Inr lone_surrogate)"

definition cancelled :: exn where
  "cancelled = Raised ''CancelledError'' False (Inr [])"

definition str_type_error :: exn where
  "str_type_error =
     Raised ''TypeError'' True (Inr ''__str__ returned non-string (type NoneType)'')"

definition unprintable :: exn where
  "unprintable = Raised ''Unprintable'' True (Inl str_type_error)"

text \<open>
  \<open>lax_validators\<close> follow the validation library's lax mode on these inputs: an
  integer field takes an integer, a boolean (as 0 or 1), a float that is a whole number
  of magnitude below \<open>2\<^sup>6\<^sup>3\<close>, and a string of one to eighteen decimal digits (as the
  number it writes), and refuses \<^verbatim>\<open>null\<close>, a list, a dict and a float with a
  fractional part; a string field takes a string and refuses every other value; a float
  field takes a float and an integer of magnitude at most \<open>2\<^sup>5\<^sup>3\<close> (which a double holds
  exactly), and refuses \<^verbatim>\<open>null\<close>, a list and a dict; a boolean field takes a boolean
  and the integers 0 and 1, and refuses every other integer, \<^verbatim>\<open>null\<close>, a list and a
  dict. On any other input the sample answers with the error \<open>outside_sample\<close> and
  says nothing about the library, which accepts some of them (a signed or padded numeral,
  a larger integer for a float); no example uses one.
\<close>

definition digit :: "char \<Rightarrow> nat option" where
  "digit c =
     (let code = (of_char c :: nat)
      in if 48 \<le> code \<and> code \<le> 57 then Some (code - 48) else None)"

fun decimal :: "nat \<Rightarrow> string \<Rightarrow> nat option" where
  "decimal n [] = Some n"
| "decimal n (c # cs) =
     (case digit c of None \<Rightarrow> None | Some d \<Rightarrow> decimal (10 * n + d) cs)"

definition lax_int :: "json \<Rightarrow> string + int" where
  "lax_int v =
     (case v of
        JInt i \<Rightarrow> Inr i
      | JBool b \<Rightarrow> Inr (if b then 1 else 0)
      | JFloat r \<Rightarrow>
          if of_int \<lfloor>r\<rfloor> \<noteq> r then Inl ''int_from_float''
          else if \<bar>r\<bar> < 2 ^ 63 then Inr \<lfloor>r\<rfloor>
          else Inl ''outside_sample''
      | JStr s \<Rightarrow>
          if s = [] \<or> 18 < length s then Inl ''outside_sample''
          else (case decimal 0 s of None \<Rightarrow> Inl ''outside_sample'' | Some n \<Rightarrow> Inr (int n))
      | _ \<Rightarrow> Inl ''int_type'')"

definition lax_str :: "json \<Rightarrow> string + string" where
  "lax_str v = (case v of JStr s \<Rightarrow> Inr s | _ \<Rightarrow> Inl ''string_type'')"

definition lax_float :: "json \<Rightarrow> string + real" where
  "lax_float v =
     (case v of
        JFloat r \<Rightarrow> Inr r
      | JInt i \<Rightarrow> if \<bar>i\<bar> \<le> 2 ^ 53 then Inr (of_int i) else Inl ''outside_sample''
      | JNull \<Rightarrow> Inl ''float_type''
      | JArr js \<Rightarrow> Inl ''float_type''
      | JObj kvs \<Rightarrow> Inl ''float_type''
      | _ \<Rightarrow> Inl ''outside_sample'')"

definition lax_bool :: "json \<Rightarrow> string + bool" where
  "lax_bool v =
     (case v of
        JBool b \<Rightarrow> Inr b
      | JInt i \<Rightarrow> if i = 0 then Inr False else if i = 1 then Inr True else Inl ''bool_parsing''
      | JNull \<Rightarrow> Inl ''bool_type''
      | JArr js \<Rightarrow> Inl ''bool_type''
      | JObj kvs \<Rightarrow> Inl ''bool_type''
      | _ \<Rightarrow> Inl ''outside_sample'')"

definition lax_validators :: validators where
  "lax_validators =
     \<lparr>int_validator = lax_int, str_validator = lax_str,
      float_validator = lax_float, bool_validator = lax_bool\<rparr>"

text \<open>
  A create-order body with one line item and the two optional top-level fields left
  out, and the request it validates to.
\<close>

definition widget_body :: json where
  "widget_body =
     JObj [(''line_items'',
              JArr [JObj [(''variant_id'', JInt 12345), (''quantity'', JInt 1),
                          (''title'', JStr ''Widget''), (''price'', JFloat 9.99)]]),
           (''customer_email'', JStr ''customer@example.com'')]"

definition widget_request :: CreateOrderRequest where
  "widget_request =
     \<lparr>line_items = [\<lparr>variant_id = 12345, quantity = 1, title = ''Widget'', price = 9.99\<rparr>],
      customer_email = ''customer@example.com'',
      financial_status = ''paid'',
      test = True\<rparr>"

text \<open>
  A create-order body whose line item and top level leave out every optional field, the
  request it validates to, and a body whose list of line items is empty.
\<close>

definition bare_body :: json where
  "bare_body =
     JObj [(''line_items'', JArr [JObj [(''variant_id'', JInt 12345), (''quantity'', JInt 2)]]),
           (''customer_email'', JStr ''customer@example.com'')]"

definition bare_request :: CreateOrderRequest where
  "bare_request =
     \<lparr>line_items = [\<lparr>variant_id = 12345, quantity = 2, title = ''Product'', price = 0\<rparr>],
      customer_email = ''customer@example.com'',
      financial_status = ''paid'',
      test = True\<rparr>"

definition empty_order_body :: json where
  "empty_order_body =
     JObj [(''line_items'', JArr []), (''customer_email'', JStr ''customer@example.com'')]"

text \<open>
  A create-order body whose \<^verbatim>\<open>quantity\<close> is the string \<^verbatim>\<open>"2"\<close>, where the
  model declares an integer.
\<close>

definition coerced_body :: json where
  "coerced_body =
     JObj [(''line_items'',
              JArr [JObj [(''variant_id'', JInt 12345), (''quantity'', JStr ''2'')]]),
           (''customer_email'', JStr ''customer@example.com'')]"

section \<open>Bodies that validation rejects\<close>

text \<open>
  A key is \<open>missing\<close> from a dict; a dict \<open>carries\<close> under a key a value with a given
  property; a validator \<open>rejects\<close> the value a dict carries under a key.
\<close>

definition missing :: "dict \<Rightarrow> string \<Rightarrow> bool" where
  "missing kvs k = (map_of kvs k = None)"

definition carries :: "(json \<Rightarrow> bool) \<Rightarrow> dict \<Rightarrow> string \<Rightarrow> bool" where
  "carries bad kvs k = (case map_of kvs k of None \<Rightarrow> False | Some v \<Rightarrow> bad v)"

definition rejects :: "(json \<Rightarrow> string + 'a) \<Rightarrow> dict \<Rightarrow> string \<Rightarrow> bool" where
  "rejects val kvs k = (case map_of kvs k of None \<Rightarrow> False | Some v \<Rightarrow> isl (val v))"

text \<open>
  Values that cannot be read as a value of a declared leaf type, by the JSON type of the
  value alone: \<^verbatim>\<open>null\<close>, a list or a dict for any leaf type; anything but a string
  for \<^verbatim>\<open>str\<close>; a float with a fractional part for \<^verbatim>\<open>int\<close>. Lax validation turns
  some values of another JSON type into the declared one (a numeral in a string into an
  integer, a boolean into 0 or 1): those are not listed.
\<close>

fun uncoercible_int :: "json \<Rightarrow> bool" where
  "uncoercible_int JNull = True"
| "uncoercible_int (JArr js) = True"
| "uncoercible_int (JObj kvs) = True"
| "uncoercible_int (JFloat r) = (of_int \<lfloor>r\<rfloor> \<noteq> r)"
| "uncoercible_int v = False"

fun uncoercible_str :: "json \<Rightarrow> bool" where
  "uncoercible_str (JStr s) = False"
| "uncoercible_str v = True"

fun uncoercible_float :: "json \<Rightarrow> bool" where
  "uncoercible_float JNull = True"
| "uncoercible_float (JArr js) = True"
| "uncoercible_float (JObj kvs) = True"
| "uncoercible_float v = False"

fun uncoercible_bool :: "json \<Rightarrow> bool" where
  "uncoercible_bool JNull = True"
| "uncoercible_bool (JArr js) = True"
| "uncoercible_bool (JObj kvs) = True"
| "uncoercible_bool v = False"

text \<open>The leaf validators refuse the values listed above, as the library's do.\<close>

definition rejects_uncoercible :: "validators \<Rightarrow> bool" where
  "rejects_uncoercible V \<longleftrightarrow>
     (\<forall>v. uncoercible_int v \<longrightarrow> isl (int_validator V v))
     \<and> (\<forall>v. uncoercible_str v \<longrightarrow> isl (str_validator V v))
     \<and> (\<forall>v. uncoercible_float v \<longrightarrow> isl (float_validator V v))
     \<and> (\<forall>v. uncoercible_bool v \<longrightarrow> isl (bool_validator V v))"

text \<open>
  A malformed create-order body, stated on the body alone: it is not a dict; or
  \<^verbatim>\<open>line_items\<close> or \<^verbatim>\<open>customer_email\<close> is missing; or \<^verbatim>\<open>line_items\<close> is not a list,
  or one of its elements is not a dict, misses \<^verbatim>\<open>variant_id\<close> or \<^verbatim>\<open>quantity\<close>, or
  carries under one of its four keys a value that cannot be read as the declared type;
  or one of the three other keys carries such a value.
\<close>

fun malformed_LineItem :: "json \<Rightarrow> bool" where
  "malformed_LineItem (JObj kvs) =
     (missing kvs ''variant_id'' \<or> missing kvs ''quantity''
      \<or> carries uncoercible_int kvs ''variant_id''
      \<or> carries uncoercible_int kvs ''quantity''
      \<or> carries uncoercible_str kvs ''title''
      \<or> carries uncoercible_float kvs ''price'')"
| "malformed_LineItem j = True"

fun malformed_line_items :: "json \<Rightarrow> bool" where
  "malformed_line_items (JArr js) = list_ex malformed_LineItem js"
| "malformed_line_items j = True"

fun malformed_create_order_body :: "json \<Rightarrow> bool" where
  "malformed_create_order_body (JObj kvs) =
     (missing kvs ''line_items'' \<or> missing kvs ''customer_email''
      \<or> carries malformed_line_items kvs ''line_items''
      \<or> carries uncoercible_str kvs ''customer_email''
      \<or> carries uncoercible_str kvs ''financial_status''
      \<or> carries uncoercible_bool kvs ''test'')"
| "malformed_create_order_body j = True"

text \<open>
  The same with the verdict of the leaf validators in place of the list of values that
  cannot be read: the bodies on which validation fails.
\<close>

fun invalid_LineItem :: "validators \<Rightarrow> json \<Rightarrow> bool" where
  "invalid_LineItem V (JObj kvs) =
     (missing kvs ''variant_id'' \<or> missing kvs ''quantity''
      \<or> rejects (int_validator V) kvs ''variant_id''
      \<or> rejects (int_validator V) kvs ''quantity''
      \<or> rejects (str_validator V) kvs ''title''
      \<or> rejects (float_validator V) kvs ''price'')"
| "invalid_LineItem V j = True"

fun invalid_line_items :: "validators \<Rightarrow> json \<Rightarrow> bool" where
  "invalid_line_items V (JArr js) = list_ex (invalid_LineItem V) js"
| "invalid_line_items V j = True"

fun invalid_create_order_body :: "validators \<Rightarrow> json \<Rightarrow> bool" where
  "invalid_create_order_body V (JObj kvs) =
     (missing kvs ''line_items'' \<or> missing kvs ''customer_email''
      \<or> (case map_of kvs ''line_items'' of None \<Rightarrow> False | Some j \<Rightarrow> invalid_line_items V j)
      \<or> rejects (str_validator V) kvs ''customer_email''
      \<or> rejects (str_validator V) kvs ''financial_status''
      \<or> rejects (bool_validator V) kvs ''test'')"
| "invalid_create_order_body V j = True"

text \<open>A failed validation reports at least one error.\<close>

definition reports :: "'a validation \<Rightarrow> bool" where
  "reports x = (case x of Inl es \<Rightarrow> es \<noteq> [] | Inr y \<Rightarrow> True)"

section \<open>Constructing a response\<close>

lemma OrderResponse_new_dict [simp]:
  "OrderResponse_new env s (JObj kvs) e = Inr \<lparr>success = s, data = kvs, error = e\<rparr>"
  by (simp add: OrderResponse_new_def)

lemma OrderResponse_new_not_dict:
  "\<not> is_dict v \<Longrightarrow>
     OrderResponse_new env s v e =
       Inl (Raised ''ValidationError'' True (Inr (dict_type_error_str env v)))"
  by (cases v) (simp_all add: OrderResponse_new_def)

lemma OrderResponse_new_is_dict:
  "is_dict v \<Longrightarrow> \<exists>kvs. v = JObj kvs \<and> OrderResponse_new env s v e = Inr \<lparr>success = s, data = kvs, error = e\<rparr>"
  by (cases v) simp_all

text \<open>
  The two handlers share their \<^verbatim>\<open>try\<close> block from the delegated call's outcome on,
  and their \<^verbatim>\<open>except\<close> clause. What the block comes to is told by the exception it
  raises.
\<close>

lemma try_block_raised:
  assumes "try_block_raises env outcome = Some e"
  shows "(case outcome of
            Inl e \<Rightarrow> Inl e
          | Inr result_json \<Rightarrow>
              (case json_loads env result_json of
                 Inl e \<Rightarrow> Inl e
               | Inr result \<Rightarrow> OrderResponse_new env True result None)) = Inl e"
  using assms
  by (auto simp: try_block_raises_def OrderResponse_new_not_dict
      split: sum.splits if_splits)

lemma try_block_returned:
  assumes "try_block_raises env outcome = None"
  shows "\<exists>s kvs. outcome = Inr s \<and> json_loads env s = Inr (JObj kvs)
           \<and> (case outcome of
                 Inl e \<Rightarrow> Inl e
               | Inr result_json \<Rightarrow>
                   (case json_loads env result_json of
                      Inl e \<Rightarrow> Inl e
                    | Inr result \<Rightarrow> OrderResponse_new env True result None)) =
               Inr \<lparr>success = True, data = kvs, error = None\<rparr>"
proof -
  from assms obtain s v where "outcome = Inr s" "json_loads env s = Inr v" "is_dict v"
    by (auto simp: try_block_raises_def split: sum.splits if_splits)
  moreover then obtain kvs where "v = JObj kvs"
    by (cases v) simp_all
  ultimately show ?thesis
    by simp
qed

lemma fst_create_order_endpoint:
  "fst (create_order_endpoint env req) =
     [CreateOrderCall (map LineItem_model_dump (line_items req)) (customer_email req)
        (financial_status req) (test req)]"
  by (simp add: create_order_endpoint_def Let_def)

lemma fst_get_order_status_endpoint:
  "fst (get_order_status_endpoint env sreq) = [GetOrderStatusCall (order_id sreq)]"
  by (simp add: get_order_status_endpoint_def Let_def)

lemma create_order_endpoint_raised:
  assumes "try_block_raises env
             (create_order env (map LineItem_model_dump (line_items req)) (customer_email req)
                (financial_status req) (test req)) = Some e"
  shows "snd (create_order_endpoint env req) =
           (if is_Exception e
            then (case str_exn e of
                    Inl e' \<Rightarrow> Inl e'
                  | Inr m \<Rightarrow> Inr \<lparr>success = False, data = [], error = Some m\<rparr>)
            else Inl e)"
  by (simp add: create_order_endpoint_def Let_def try_block_raised [OF assms]
      split: sum.splits)

lemma create_order_endpoint_returned:
  assumes "try_block_raises env
             (create_order env (map LineItem_model_dump (line_items req)) (customer_email req)
                (financial_status req) (test req)) = None"
  shows "\<exists>s kvs. create_order env (map LineItem_model_dump (line_items req))
                    (customer_email req) (financial_status req) (test req) = Inr s
           \<and> json_loads env s = Inr (JObj kvs)
           \<and> snd (create_order_endpoint env req) =
               Inr \<lparr>success = True, data = kvs, error = None\<rparr>"
  using try_block_returned [OF assms]
  by (auto simp: create_order_endpoint_def Let_def)

lemma get_order_status_endpoint_raised:
  assumes "try_block_raises env (get_order_status env (order_id sreq)) = Some e"
  shows "snd (get_order_status_endpoint env sreq) =
           (if is_Exception e
            then (case str_exn e of
                    Inl e' \<Rightarrow> Inl e'
                  | Inr m \<Rightarrow> Inr \<lparr>success = False, data = [], error = Some m\<rparr>)
            else Inl e)"
  by (simp add: get_order_status_endpoint_def Let_def try_block_raised [OF assms]
      split: sum.splits)

lemma get_order_status_endpoint_returned:
  assumes "try_block_raises env (get_order_status env (order_id sreq)) = None"
  shows "\<exists>s kvs. get_order_status env (order_id sreq) = Inr s
           \<and> json_loads env s = Inr (JObj kvs)
           \<and> snd (get_order_status_endpoint env sreq) =
               Inr \<lparr>success = True, data = kvs, error = None\<rparr>"
  using try_block_returned [OF assms]
  by (auto simp: get_order_status_endpoint_def Let_def)

lemma fst_respond:
  "fst (respond env r) = fst r"
  by (cases r) (simp add: respond_def split: sum.splits)

lemma respond_returned:
  "snd r = Inr response \<Longrightarrow>
     respond env r =
       (fst r,
        (case render_error env (OrderResponse_model_dump response) of
           None \<Rightarrow> JSONResponse 200 (OrderResponse_model_dump response)
         | Some e \<Rightarrow> InternalServerError e))"
  by (cases r) (simp add: respond_def)

lemma respond_raised:
  "snd r = Inl e \<Longrightarrow> respond env r = (fst r, InternalServerError e)"
  by (cases r) (simp add: respond_def)

lemmas validate_defs =
  validate_CreateOrderRequest_def validate_GetOrderStatusRequest_def required_field_def
  optional_field_def validate_line_items_def validate_LineItem_def validated4_def leaf_def
  lax_validators_def lax_int_def lax_str_def lax_float_def lax_bool_def digit_def

lemmas sample_defs =
  sample_env_def sample_json_loads_def sample_dict_type_error_str_def sample_render_error_def

lemma validate_widget_body:
  "validate_CreateOrderRequest lax_validators widget_body = Inr widget_request"
  by (simp add: validate_defs widget_body_def widget_request_def)

lemma validate_order_999:
  "validate_GetOrderStatusRequest lax_validators (JObj [(''order_id'', JInt 999)]) =
     Inr \<lparr>order_id = 999\<rparr>"
  by (simp add: validate_defs)

section \<open>Order creation: the success path\<close>

text \<open>
  C1 (as amended). For every create-order request that passes structural validation, if
  the delegated \<^verbatim>\<open>create_order\<close> returns a string and \<^verbatim>\<open>json.loads\<close> parses it to a
  JSON object, the handler returns the envelope with \<^verbatim>\<open>success\<close> true, \<^verbatim>\<open>data\<close> that
  object and \<^verbatim>\<open>error\<close> null; and when that envelope is written as the response body
  without error, the route answers with status 200 and the envelope serialized.
\<close>

theorem create_order_success:
  assumes "validate_CreateOrderRequest V body = Inr req"
      and "create_order env (map LineItem_model_dump (line_items req)) (customer_email req)
             (financial_status req) (test req) = Inr s"
      and "json_loads env s = Inr (JObj kvs)"
  shows "snd (create_order_endpoint env req) = Inr \<lparr>success = True, data = kvs, error = None\<rparr>
       \<and> (render_error env
            (JObj [(''success'', JBool True), (''data'', JObj kvs), (''error'', JNull)]) = None
          \<longrightarrow> snd (app V env (POST_orders_create body)) =
                JSONResponse 200
                  (JObj [(''success'', JBool True), (''data'', JObj kvs), (''error'', JNull)]))"
  using assms
  by (simp add: create_order_endpoint_def app_def respond_def OrderResponse_model_dump_def)

theorem create_order_success_witness:
  \<open>snd (create_order_endpoint (sample_env (Inr ''{"id": 1}'')) widget_request) =
      Inr \<lparr>success = True, data = [(''id'', JInt 1)], error = None\<rparr>
   \<and> snd (app lax_validators (sample_env (Inr ''{"id": 1}'')) (POST_orders_create widget_body)) =
      JSONResponse 200
        (JObj [(''success'', JBool True), (''data'', JObj [(''id'', JInt 1)]), (''error'', JNull)])\<close>
proof -
  have loads: \<open>json_loads (sample_env (Inr ''{"id": 1}'')) ''{"id": 1}'' =
      Inr (JObj [(''id'', JInt 1)])\<close>
    by (simp add: sample_defs)
  have returned: \<open>create_order (sample_env (Inr ''{"id": 1}''))
      (map LineItem_model_dump (line_items widget_request)) (customer_email widget_request)
      (financial_status widget_request) (test widget_request) = Inr ''{"id": 1}''\<close>
    by (simp add: sample_defs)
  have written: \<open>render_error (sample_env (Inr ''{"id": 1}''))
      (JObj [(''success'', JBool True), (''data'', JObj [(''id'', JInt 1)]), (''error'', JNull)]) =
      None\<close>
    by (simp add: sample_defs)
  from create_order_success [OF validate_widget_body returned loads] written
  show ?thesis
    by simp
qed

text \<open>
  The claim as first stated asks for the success envelope whenever the delegated call
  returns a JSON-encoded string. The text \<^verbatim>\<open>[]\<close> is one; the request is valid, the call
  returns, the parse succeeds, and the handler answers with the failure envelope.
\<close>

theorem create_order_non_dict_counterexample:
  \<open>validate_CreateOrderRequest lax_validators widget_body = Inr widget_request
   \<and> create_order (sample_env (Inr ''[]'')) (map LineItem_model_dump (line_items widget_request))
       (customer_email widget_request) (financial_status widget_request) (test widget_request) =
      Inr ''[]''
   \<and> json_loads (sample_env (Inr ''[]'')) ''[]'' = Inr (JArr [])
   \<and> snd (create_order_endpoint (sample_env (Inr ''[]'')) widget_request) =
      Inr \<lparr>success = False, data = [],
           error = Some (dict_type_error_str (sample_env (Inr ''[]'')) (JArr []))\<rparr>\<close>
  by (simp add: validate_widget_body create_order_endpoint_def sample_env_def
      sample_json_loads_def OrderResponse_new_def)

section \<open>Failures of the delegated call\<close>

text \<open>
  C2 (as amended). When the delegated call raises, or \<^verbatim>\<open>json.loads\<close> raises on what it
  returned, an exception that derives from \<^verbatim>\<open>Exception\<close> and has a string form, the
  handler (for order creation and for order status alike) returns the envelope with
  \<^verbatim>\<open>success\<close> false, \<^verbatim>\<open>data\<close> the empty dict and \<^verbatim>\<open>error\<close> that string form; the
  route sends it with status 200 when it is written as the response body without error.
  The witness is the scenario of a status request for order 999 whose delegated call
  raises "not found".
\<close>

theorem delegated_failure_envelope:
  "(is_Exception e \<and> str_exn e = Inr m
      \<and> (create_order env (map LineItem_model_dump (line_items req)) (customer_email req)
            (financial_status req) (test req) = Inl e
         \<or> (\<exists>s. create_order env (map LineItem_model_dump (line_items req)) (customer_email req)
                  (financial_status req) (test req) = Inr s \<and> json_loads env s = Inl e))
     \<longrightarrow> snd (create_order_endpoint env req) =
           Inr \<lparr>success = False, data = [], error = Some m\<rparr>
         \<and> (render_error env
              (JObj [(''success'', JBool False), (''data'', JObj []), (''error'', JStr m)]) = None
            \<longrightarrow> respond env (create_order_endpoint env req) =
                  ([CreateOrderCall (map LineItem_model_dump (line_items req))
                      (customer_email req) (financial_status req) (test req)],
                   JSONResponse 200
                     (JObj [(''success'', JBool False), (''data'', JObj []),
                            (''error'', JStr m)]))))
   \<and> (is_Exception e \<and> str_exn e = Inr m
      \<and> (get_order_status env (order_id sreq) = Inl e
         \<or> (\<exists>s. get_order_status env (order_id sreq) = Inr s \<and> json_loads env s = Inl e))
     \<longrightarrow> snd (get_order_status_endpoint env sreq) =
           Inr \<lparr>success = False, data = [], error = Some m\<rparr>
         \<and> (render_error env
              (JObj [(''success'', JBool False), (''data'', JObj []), (''error'', JStr m)]) = None
            \<longrightarrow> respond env (get_order_status_endpoint env sreq) =
                  ([GetOrderStatusCall (order_id sreq)],
                   JSONResponse 200
                     (JObj [(''success'', JBool False), (''data'', JObj []),
                            (''error'', JStr m)]))))"
proof (intro conjI impI; elim conjE)
  assume e: "is_Exception e" "str_exn e = Inr m"
  assume "create_order env (map LineItem_model_dump (line_items req)) (customer_email req)
        (financial_status req) (test req) = Inl e
      \<or> (\<exists>s. create_order env (map LineItem_model_dump (line_items req)) (customer_email req)
               (financial_status req) (test req) = Inr s \<and> json_loads env s = Inl e)"
  with e show r: "snd (create_order_endpoint env req) =
      Inr \<lparr>success = False, data = [], error = Some m\<rparr>"
    by (auto simp: create_order_endpoint_def)
  assume "render_error env
      (JObj [(''success'', JBool False), (''data'', JObj []), (''error'', JStr m)]) = None"
  then show "respond env (create_order_endpoint env req) =
           ([CreateOrderCall (map LineItem_model_dump (line_items req)) (customer_email req)
               (financial_status req) (test req)],
            JSONResponse 200
              (JObj [(''success'', JBool False), (''data'', JObj []), (''error'', JStr m)]))"
    by (simp add: respond_returned [OF r] fst_create_order_endpoint OrderResponse_model_dump_def)
next
  assume e: "is_Exception e" "str_exn e = Inr m"
  assume "get_order_status env (order_id sreq) = Inl e
      \<or> (\<exists>s. get_order_status env (order_id sreq) = Inr s \<and> json_loads env s = Inl e)"
  with e show r: "snd (get_order_status_endpoint env sreq) =
      Inr \<lparr>success = False, data = [], error = Some m\<rparr>"
    by (auto simp: get_order_status_endpoint_def)
  assume "render_error env
      (JObj [(''success'', JBool False), (''data'', JObj []), (''error'', JStr m)]) = None"
  then show "respond env (get_order_status_endpoint env sreq) =
           ([GetOrderStatusCall (order_id sreq)],
            JSONResponse 200
              (JObj [(''success'', JBool False), (''data'', JObj []), (''error'', JStr m)]))"
    by (simp add: respond_returned [OF r] fst_get_order_status_endpoint
        OrderResponse_model_dump_def)
qed

theorem delegated_failure_envelope_witness:
  "app lax_validators (sample_env (Inl not_found))
       (POST_orders_status (JObj [(''order_id'', JInt 999)])) =
     ([GetOrderStatusCall 999],
      JSONResponse 200
        (JObj [(''success'', JBool False), (''data'', JObj []), (''error'', JStr ''not found'')]))
   \<and> snd (create_order_endpoint (sample_env (Inr ''oops'')) widget_request) =
       Inr \<lparr>success = False, data = [],
            error = Some ''Expecting value: line 1 column 1 (char 0)''\<rparr>"
proof -
  let ?decode = "Raised ''JSONDecodeError'' True
      (Inr ''Expecting value: line 1 column 1 (char 0)'')"
  have raised: "is_Exception not_found \<and> str_exn not_found = Inr ''not found''
      \<and> (get_order_status (sample_env (Inl not_found)) (order_id \<lparr>order_id = 999\<rparr>) =
            Inl not_found
          \<or> (\<exists>s. get_order_status (sample_env (Inl not_found)) (order_id \<lparr>order_id = 999\<rparr>) =
                  Inr s \<and> json_loads (sample_env (Inl not_found)) s = Inl not_found))"
    by (simp add: sample_env_def not_found_def)
  have written: "render_error (sample_env (Inl not_found))
      (JObj [(''success'', JBool False), (''data'', JObj []), (''error'', JStr ''not found'')]) =
      None"
    by (simp add: sample_defs)
  have unparsed: "is_Exception ?decode
      \<and> str_exn ?decode = Inr ''Expecting value: line 1 column 1 (char 0)''
      \<and> (create_order (sample_env (Inr ''oops''))
            (map LineItem_model_dump (line_items widget_request)) (customer_email widget_request)
            (financial_status widget_request) (test widget_request) = Inl ?decode
          \<or> (\<exists>s. create_order (sample_env (Inr ''oops''))
                  (map LineItem_model_dump (line_items widget_request))
                  (customer_email widget_request) (financial_status widget_request)
                  (test widget_request) = Inr s
                \<and> json_loads (sample_env (Inr ''oops'')) s = Inl ?decode))"
    by (simp add: sample_defs)
  note status_part = delegated_failure_envelope
         [of not_found "''not found''" "sample_env (Inl not_found)" widget_request
            "\<lparr>order_id = 999\<rparr>", THEN conjunct2, rule_format, OF raised]
  with written
  have status: "respond (sample_env (Inl not_found))
        (get_order_status_endpoint (sample_env (Inl not_found)) \<lparr>order_id = 999\<rparr>) =
      ([GetOrderStatusCall 999],
       JSONResponse 200
        (JObj [(''success'', JBool False), (''data'', JObj []), (''error'', JStr ''not found'')]))"
    by simp
  note create_part = delegated_failure_envelope
         [of ?decode "''Expecting value: line 1 column 1 (char 0)''" "sample_env (Inr ''oops'')"
            widget_request "\<lparr>order_id = 999\<rparr>", THEN conjunct1, rule_format, OF unparsed]
  then have create: "snd (create_order_endpoint (sample_env (Inr ''oops'')) widget_request) =
      Inr \<lparr>success = False, data = [],
           error = Some ''Expecting value: line 1 column 1 (char 0)''\<rparr>"
    by simp
  from validate_order_999 status create show ?thesis
    by (simp add: app_def)
qed

text \<open>
  The claim as first stated asks for the envelope and status 200 whenever the delegated
  call raises. A delegated call that raises an exception whose string form is a lone
  surrogate makes the handler return the failure envelope, which cannot be written as
  the response body: the route answers with a server error. A delegated call that is
  cancelled raises an exception outside \<^verbatim>\<open>Exception\<close>, which leaves the handler.
\<close>

theorem delegated_failure_status_counterexample:
  "get_order_status (sample_env (Inl surrogate_error)) 999 = Inl surrogate_error
   \<and> snd (get_order_status_endpoint (sample_env (Inl surrogate_error)) \<lparr>order_id = 999\<rparr>) =
       Inr \<lparr>success = False, data = [], error = Some lone_surrogate\<rparr>
   \<and> app lax_validators (sample_env (Inl surrogate_error))
         (POST_orders_status (JObj [(''order_id'', JInt 999)])) =
       ([GetOrderStatusCall 999], InternalServerError surrogate_refused)
   \<and> get_order_status (sample_env (Inl cancelled)) 999 = Inl cancelled
   \<and> snd (get_order_status_endpoint (sample_env (Inl cancelled)) \<lparr>order_id = 999\<rparr>) =
       Inl cancelled"
  by (simp add: app_def validate_order_999 respond_def get_order_status_endpoint_def
      sample_defs surrogate_error_def cancelled_def lone_surrogate_def
      OrderResponse_model_dump_def)

text \<open>
  C10. When the delegated call returns and its text parses to a JSON value that is not
  an object (an array, a number, a string, null), constructing the success response
  raises inside the \<^verbatim>\<open>try\<close> block, and the handler returns the failure envelope whose
  error is that exception's string form.
\<close>

theorem non_dict_result_is_failure:
  "(create_order env (map LineItem_model_dump (line_items req)) (customer_email req)
        (financial_status req) (test req) = Inr s \<and> json_loads env s = Inr v \<and> \<not> is_dict v
      \<longrightarrow> snd (create_order_endpoint env req) =
            Inr \<lparr>success = False, data = [], error = Some (dict_type_error_str env v)\<rparr>)
   \<and> (get_order_status env (order_id sreq) = Inr s \<and> json_loads env s = Inr v \<and> \<not> is_dict v
      \<longrightarrow> snd (get_order_status_endpoint env sreq) =
            Inr \<lparr>success = False, data = [], error = Some (dict_type_error_str env v)\<rparr>)"
  by (simp add: create_order_endpoint_def get_order_status_endpoint_def OrderResponse_new_not_dict)

theorem non_dict_result_is_failure_witness:
  "snd (create_order_endpoint (sample_env (Inr ''[]'')) widget_request) =
      Inr \<lparr>success = False, data = [],
           error = Some (dict_type_error_str (sample_env (Inr ''[]'')) (JArr []))\<rparr>
   \<and> snd (get_order_status_endpoint (sample_env (Inr ''null'')) \<lparr>order_id = 999\<rparr>) =
      Inr \<lparr>success = False, data = [],
           error = Some (dict_type_error_str (sample_env (Inr ''null'')) JNull)\<rparr>"
proof -
  have a: "create_order (sample_env (Inr ''[]''))
        (map LineItem_model_dump (line_items widget_request)) (customer_email widget_request)
        (financial_status widget_request) (test widget_request) = Inr ''[]''
      \<and> json_loads (sample_env (Inr ''[]'')) ''[]'' = Inr (JArr []) \<and> \<not> is_dict (JArr [])"
    by (simp add: sample_env_def sample_json_loads_def)
  have b: "get_order_status (sample_env (Inr ''null'')) (order_id \<lparr>order_id = 999\<rparr>) = Inr ''null''
      \<and> json_loads (sample_env (Inr ''null'')) ''null'' = Inr JNull \<and> \<not> is_dict JNull"
    by (simp add: sample_env_def sample_json_loads_def)
  from non_dict_result_is_failure
         [of "sample_env (Inr ''[]'')" widget_request "''[]''" "JArr []" "\<lparr>order_id = 999\<rparr>"] a
  have "snd (create_order_endpoint (sample_env (Inr ''[]'')) widget_request) =
      Inr \<lparr>success = False, data = [],
           error = Some (dict_type_error_str (sample_env (Inr ''[]'')) (JArr []))\<rparr>"
    by blast
  moreover
  from non_dict_result_is_failure
         [of "sample_env (Inr ''null'')" widget_request "''null''" JNull "\<lparr>order_id = 999\<rparr>"] b
  have "snd (get_order_status_endpoint (sample_env (Inr ''null'')) \<lparr>order_id = 999\<rparr>) =
      Inr \<lparr>success = False, data = [],
           error = Some (dict_type_error_str (sample_env (Inr ''null'')) JNull)\<rparr>"
    by blast
  ultimately show ?thesis
    by simp
qed

section \<open>Which exceptions leave a handler\<close>

text \<open>
  C5 (as amended). Whatever exception is raised inside a handler's \<^verbatim>\<open>try\<close> block (by
  the delegated call, by the parser, or by constructing the success response), if it
  derives from \<^verbatim>\<open>Exception\<close> and has a string form, the handler returns the failure
  envelope that carries that string form; and when nothing is raised the handler returns
  a success envelope. So the handler returns normally unless the exception raised is
  outside \<^verbatim>\<open>Exception\<close> or taking its string form raises.
\<close>

theorem handlers_return_normally:
  "(try_block_raises env
        (create_order env (map LineItem_model_dump (line_items req)) (customer_email req)
           (financial_status req) (test req)) = Some e
      \<and> is_Exception e \<and> str_exn e = Inr m
     \<longrightarrow> snd (create_order_endpoint env req) =
           Inr \<lparr>success = False, data = [], error = Some m\<rparr>)
   \<and> (try_block_raises env
        (create_order env (map LineItem_model_dump (line_items req)) (customer_email req)
           (financial_status req) (test req)) = None
     \<longrightarrow> (\<exists>r. snd (create_order_endpoint env req) = Inr r \<and> success r))
   \<and> (try_block_raises env (get_order_status env (order_id sreq)) = Some e
      \<and> is_Exception e \<and> str_exn e = Inr m
     \<longrightarrow> snd (get_order_status_endpoint env sreq) =
           Inr \<lparr>success = False, data = [], error = Some m\<rparr>)
   \<and> (try_block_raises env (get_order_status env (order_id sreq)) = None
     \<longrightarrow> (\<exists>r. snd (get_order_status_endpoint env sreq) = Inr r \<and> success r))"
proof (intro conjI impI; (elim conjE)?)
  assume "try_block_raises env
        (create_order env (map LineItem_model_dump (line_items req)) (customer_email req)
           (financial_status req) (test req)) = Some e"
    and "is_Exception e" and "str_exn e = Inr m"
  then show "snd (create_order_endpoint env req) =
      Inr \<lparr>success = False, data = [], error = Some m\<rparr>"
    by (simp add: create_order_endpoint_raised)
next
  assume "try_block_raises env
        (create_order env (map LineItem_model_dump (line_items req)) (customer_email req)
           (financial_status req) (test req)) = None"
  from create_order_endpoint_returned [OF this]
  show "\<exists>r. snd (create_order_endpoint env req) = Inr r \<and> success r"
    by auto
next
  assume "try_block_raises env (get_order_status env (order_id sreq)) = Some e"
    and "is_Exception e" and "str_exn e = Inr m"
  then show "snd (get_order_status_endpoint env sreq) =
      Inr \<lparr>success = False, data = [], error = Some m\<rparr>"
    by (simp add: get_order_status_endpoint_raised)
next
  assume "try_block_raises env (get_order_status env (order_id sreq)) = None"
  from get_order_status_endpoint_returned [OF this]
  show "\<exists>r. snd (get_order_status_endpoint env sreq) = Inr r \<and> success r"
    by auto
qed

theorem handlers_return_normally_witness:
  \<open>snd (create_order_endpoint (sample_env (Inr ''7'')) widget_request) =
      Inr \<lparr>success = False, data = [], error = Some ''1 validation error for OrderResponse''\<rparr>
   \<and> snd (get_order_status_endpoint (sample_env (Inl not_found)) \<lparr>order_id = 999\<rparr>) =
      Inr \<lparr>success = False, data = [], error = Some ''not found''\<rparr>
   \<and> (\<exists>r. snd (create_order_endpoint (sample_env (Inr ''{"id": 1}'')) widget_request) = Inr r
          \<and> success r)\<close>
proof -
  let ?invalid = "Raised ''ValidationError'' True (Inr ''1 validation error for OrderResponse'')"
  have a: "try_block_raises (sample_env (Inr ''7''))
        (create_order (sample_env (Inr ''7'')) (map LineItem_model_dump (line_items widget_request))
           (customer_email widget_request) (financial_status widget_request)
           (test widget_request)) = Some ?invalid
      \<and> is_Exception ?invalid
      \<and> str_exn ?invalid = Inr ''1 validation error for OrderResponse''"
    by (simp add: try_block_raises_def sample_defs)
  have b: "try_block_raises (sample_env (Inl not_found))
        (get_order_status (sample_env (Inl not_found)) (order_id \<lparr>order_id = 999\<rparr>)) =
        Some not_found
      \<and> is_Exception not_found \<and> str_exn not_found = Inr ''not found''"
    by (simp add: try_block_raises_def sample_defs not_found_def)
  have c: \<open>try_block_raises (sample_env (Inr ''{"id": 1}''))
        (create_order (sample_env (Inr ''{"id": 1}''))
           (map LineItem_model_dump (line_items widget_request))
           (customer_email widget_request) (financial_status widget_request)
           (test widget_request)) = None\<close>
    by (simp add: try_block_raises_def sample_defs)
  from handlers_return_normally
         [of "sample_env (Inr ''7'')" widget_request ?invalid
            "''1 validation error for OrderResponse''" "\<lparr>order_id = 999\<rparr>"] a
  have "snd (create_order_endpoint (sample_env (Inr ''7'')) widget_request) =
      Inr \<lparr>success = False, data = [], error = Some ''1 validation error for OrderResponse''\<rparr>"
    by blast
  moreover
  from handlers_return_normally
         [of "sample_env (Inl not_found)" widget_request not_found "''not found''"
            "\<lparr>order_id = 999\<rparr>"] b
  have "snd (get_order_status_endpoint (sample_env (Inl not_found)) \<lparr>order_id = 999\<rparr>) =
      Inr \<lparr>success = False, data = [], error = Some ''not found''\<rparr>"
    by blast
  moreover
  from handlers_return_normally
         [of \<open>sample_env (Inr ''{"id": 1}'')\<close> widget_request not_found "''not found''"
            "\<lparr>order_id = 999\<rparr>"] c
  have \<open>\<exists>r. snd (create_order_endpoint (sample_env (Inr ''{"id": 1}'')) widget_request) = Inr r
          \<and> success r\<close>
    by blast
  ultimately show ?thesis
    by blast
qed

text \<open>
  The claim as first stated lets no exception past the handler. A delegated
  \<^verbatim>\<open>create_order\<close> that is cancelled raises an exception outside \<^verbatim>\<open>Exception\<close>; the
  \<^verbatim>\<open>except\<close> clause does not catch it. One that raises an exception whose
  \<^verbatim>\<open>__str__\<close> does not return a string is caught, and \<^verbatim>\<open>str(e)\<close> in the clause
  raises a \<^verbatim>\<open>TypeError\<close>. Either exception leaves the handler.
\<close>

theorem handlers_return_normally_counterexample:
  "create_order (sample_env (Inl cancelled)) (map LineItem_model_dump (line_items widget_request))
       (customer_email widget_request) (financial_status widget_request) (test widget_request) =
      Inl cancelled
   \<and> snd (create_order_endpoint (sample_env (Inl cancelled)) widget_request) = Inl cancelled
   \<and> create_order (sample_env (Inl unprintable))
       (map LineItem_model_dump (line_items widget_request))
       (customer_email widget_request) (financial_status widget_request) (test widget_request) =
      Inl unprintable
   \<and> snd (create_order_endpoint (sample_env (Inl unprintable)) widget_request) =
      Inl str_type_error"
  by (simp add: create_order_endpoint_def sample_env_def cancelled_def unprintable_def)

section \<open>The shape of the envelope\<close>

lemma create_order_endpoint_envelope:
  assumes "snd (create_order_endpoint env req) = Inr r"
  shows "(success r \<and> error r = None
           \<and> (\<exists>s. create_order env (map LineItem_model_dump (line_items req))
                     (customer_email req) (financial_status req) (test req) = Inr s
                 \<and> json_loads env s = Inr (JObj (data r))))
       \<or> (\<not> success r \<and> data r = []
           \<and> (\<exists>e m. try_block_raises env
                        (create_order env (map LineItem_model_dump (line_items req))
                           (customer_email req) (financial_status req) (test req)) = Some e
                   \<and> str_exn e = Inr m \<and> error r = Some m))"
proof (cases "try_block_raises env
                (create_order env (map LineItem_model_dump (line_items req))
                   (customer_email req) (financial_status req) (test req))")
  case None
  from create_order_endpoint_returned [OF None] assms show ?thesis
    by auto
next
  case (Some e)
  from create_order_endpoint_raised [OF Some] assms
  obtain m where "str_exn e = Inr m" "r = \<lparr>success = False, data = [], error = Some m\<rparr>"
    by (auto split: if_splits sum.splits)
  with Some show ?thesis
    by simp
qed

lemma get_order_status_endpoint_envelope:
  assumes "snd (get_order_status_endpoint env sreq) = Inr r"
  shows "(success r \<and> error r = None
           \<and> (\<exists>s. get_order_status env (order_id sreq) = Inr s
                 \<and> json_loads env s = Inr (JObj (data r))))
       \<or> (\<not> success r \<and> data r = []
           \<and> (\<exists>e m. try_block_raises env (get_order_status env (order_id sreq)) = Some e
                   \<and> str_exn e = Inr m \<and> error r = Some m))"
proof (cases "try_block_raises env (get_order_status env (order_id sreq))")
  case None
  from get_order_status_endpoint_returned [OF None] assms show ?thesis
    by auto
next
  case (Some e)
  from get_order_status_endpoint_raised [OF Some] assms
  obtain m where "str_exn e = Inr m" "r = \<lparr>success = False, data = [], error = Some m\<rparr>"
    by (auto split: if_splits sum.splits)
  with Some show ?thesis
    by simp
qed

lemma envelope_content:
  assumes "(success r \<and> error r = None) \<or> (\<not> success r \<and> data r = [] \<and> (\<exists>m. error r = Some m))"
  shows "(\<exists>d. OrderResponse_model_dump r =
            JObj [(''success'', JBool True), (''data'', JObj d), (''error'', JNull)])
       \<or> (\<exists>m. OrderResponse_model_dump r =
            JObj [(''success'', JBool False), (''data'', JObj []), (''error'', JStr m)])"
  using assms by (auto simp: OrderResponse_model_dump_def)

lemma respond_content:
  assumes "snd (respond env x) = JSONResponse n content"
  shows "n = 200 \<and> (\<exists>r. snd x = Inr r \<and> content = OrderResponse_model_dump r)"
  using assms
  by (cases x) (auto simp: respond_def split: sum.splits option.splits)

text \<open>
  C3 (as amended). An envelope a handler returns has either \<^verbatim>\<open>success\<close> true,
  \<^verbatim>\<open>error\<close> null and as \<^verbatim>\<open>data\<close> the mapping parsed from the text the delegated call
  returned (which may be empty), or \<^verbatim>\<open>success\<close> false, \<^verbatim>\<open>data\<close> the empty mapping
  and as \<^verbatim>\<open>error\<close> the string form of the exception raised. The body of every
  response that either business route sends with an envelope has the three keys
  \<^verbatim>\<open>success\<close>, \<^verbatim>\<open>data\<close> and \<^verbatim>\<open>error\<close>, with \<^verbatim>\<open>error\<close> null beside true and
  \<^verbatim>\<open>data\<close> empty beside false.
\<close>

theorem envelope_invariant:
  "(snd (create_order_endpoint env req) = Inr r
     \<longrightarrow> (success r \<and> error r = None
           \<and> (\<exists>s. create_order env (map LineItem_model_dump (line_items req))
                     (customer_email req) (financial_status req) (test req) = Inr s
                 \<and> json_loads env s = Inr (JObj (data r))))
         \<or> (\<not> success r \<and> data r = []
           \<and> (\<exists>e m. try_block_raises env
                        (create_order env (map LineItem_model_dump (line_items req))
                           (customer_email req) (financial_status req) (test req)) = Some e
                   \<and> str_exn e = Inr m \<and> error r = Some m)))
   \<and> (snd (get_order_status_endpoint env sreq) = Inr r
     \<longrightarrow> (success r \<and> error r = None
           \<and> (\<exists>s. get_order_status env (order_id sreq) = Inr s
                 \<and> json_loads env s = Inr (JObj (data r))))
         \<or> (\<not> success r \<and> data r = []
           \<and> (\<exists>e m. try_block_raises env (get_order_status env (order_id sreq)) = Some e
                   \<and> str_exn e = Inr m \<and> error r = Some m)))
   \<and> ((rq = POST_orders_create body \<or> rq = POST_orders_status body)
       \<and> snd (app V env rq) = JSONResponse n content
     \<longrightarrow> n = 200
         \<and> ((\<exists>d. content =
                 JObj [(''success'', JBool True), (''data'', JObj d), (''error'', JNull)])
            \<or> (\<exists>m. content =
                 JObj [(''success'', JBool False), (''data'', JObj []), (''error'', JStr m)])))"
proof -
  have created: "snd (create_order_endpoint env req) = Inr r
     \<longrightarrow> (success r \<and> error r = None
           \<and> (\<exists>s. create_order env (map LineItem_model_dump (line_items req))
                     (customer_email req) (financial_status req) (test req) = Inr s
                 \<and> json_loads env s = Inr (JObj (data r))))
         \<or> (\<not> success r \<and> data r = []
           \<and> (\<exists>e m. try_block_raises env
                        (create_order env (map LineItem_model_dump (line_items req))
                           (customer_email req) (financial_status req) (test req)) = Some e
                   \<and> str_exn e = Inr m \<and> error r = Some m))"
    by (rule impI) (rule create_order_endpoint_envelope)
  have looked_up: "snd (get_order_status_endpoint env sreq) = Inr r
     \<longrightarrow> (success r \<and> error r = None
           \<and> (\<exists>s. get_order_status env (order_id sreq) = Inr s
                 \<and> json_loads env s = Inr (JObj (data r))))
         \<or> (\<not> success r \<and> data r = []
           \<and> (\<exists>e m. try_block_raises env (get_order_status env (order_id sreq)) = Some e
                   \<and> str_exn e = Inr m \<and> error r = Some m))"
    by (rule impI) (rule get_order_status_endpoint_envelope)
  have sent: "(rq = POST_orders_create body \<or> rq = POST_orders_status body)
       \<and> snd (app V env rq) = JSONResponse n content
     \<longrightarrow> n = 200
         \<and> ((\<exists>d. content =
                 JObj [(''success'', JBool True), (''data'', JObj d), (''error'', JNull)])
            \<or> (\<exists>m. content =
                 JObj [(''success'', JBool False), (''data'', JObj []), (''error'', JStr m)]))"
  proof (rule impI)
    assume h: "(rq = POST_orders_create body \<or> rq = POST_orders_status body)
       \<and> snd (app V env rq) = JSONResponse n content"
    have "n = 200 \<and> (\<exists>r'. ((success r' \<and> error r' = None)
                            \<or> (\<not> success r' \<and> data r' = [] \<and> (\<exists>m. error r' = Some m)))
                          \<and> content = OrderResponse_model_dump r')"
    proof (cases "rq = POST_orders_create body")
      case True
      with h obtain request where
        "snd (respond env (create_order_endpoint env request)) = JSONResponse n content"
        by (auto simp: app_def split: sum.splits)
      from respond_content [OF this] create_order_endpoint_envelope [of env request]
      show ?thesis
        by blast
    next
      case False
      with h obtain request where
        "snd (respond env (get_order_status_endpoint env request)) = JSONResponse n content"
        by (auto simp: app_def split: sum.splits)
      from respond_content [OF this] get_order_status_endpoint_envelope [of env request]
      show ?thesis
        by blast
    qed
    then show "n = 200
         \<and> ((\<exists>d. content =
                 JObj [(''success'', JBool True), (''data'', JObj d), (''error'', JNull)])
            \<or> (\<exists>m. content =
                 JObj [(''success'', JBool False), (''data'', JObj []), (''error'', JStr m)]))"
      using envelope_content by blast
  qed
  show ?thesis
    by (rule conjI [OF created conjI [OF looked_up sent]])
qed

theorem envelope_invariant_witness:
  \<open>snd (create_order_endpoint (sample_env (Inr ''{"id": 1}'')) widget_request) =
      Inr \<lparr>success = True, data = [(''id'', JInt 1)], error = None\<rparr>
   \<and> json_loads (sample_env (Inr ''{"id": 1}'')) ''{"id": 1}'' = Inr (JObj [(''id'', JInt 1)])
   \<and> snd (get_order_status_endpoint (sample_env (Inl not_found)) \<lparr>order_id = 999\<rparr>) =
      Inr \<lparr>success = False, data = [], error = Some ''not found''\<rparr>
   \<and> try_block_raises (sample_env (Inl not_found))
        (get_order_status (sample_env (Inl not_found)) 999) = Some not_found
   \<and> snd (app lax_validators (sample_env (Inl not_found))
            (POST_orders_status (JObj [(''order_id'', JInt 999)]))) =
      JSONResponse 200
        (JObj [(''success'', JBool False), (''data'', JObj []), (''error'', JStr ''not found'')])\<close>
proof -
  let ?ok = \<open>sample_env (Inr ''{"id": 1}'')\<close>
  let ?bad = "sample_env (Inl not_found)"
  let ?r1 = "\<lparr>success = True, data = [(''id'', JInt 1)], error = None\<rparr>"
  let ?r2 = "\<lparr>success = False, data = [], error = Some ''not found''\<rparr>"
  let ?rq = "POST_orders_status (JObj [(''order_id'', JInt 999)])"
  let ?content = "JObj [(''success'', JBool False), (''data'', JObj []), (''error'', JStr ''not found'')]"
  have a: "snd (create_order_endpoint ?ok widget_request) = Inr ?r1"
    by (simp add: create_order_endpoint_def sample_defs)
  have b: "snd (get_order_status_endpoint ?bad \<lparr>order_id = 999\<rparr>) = Inr ?r2"
    by (simp add: get_order_status_endpoint_def sample_defs not_found_def)
  have c: "(?rq = POST_orders_create (JObj [(''order_id'', JInt 999)])
             \<or> ?rq = POST_orders_status (JObj [(''order_id'', JInt 999)]))
           \<and> snd (app lax_validators ?bad ?rq) = JSONResponse 200 ?content"
    by (simp add: app_def validate_order_999 respond_def get_order_status_endpoint_def
        sample_defs not_found_def OrderResponse_model_dump_def)
  note create = envelope_invariant
      [of ?ok widget_request ?r1 "\<lparr>order_id = 999\<rparr>", THEN conjunct1, rule_format, OF a]
  note status = envelope_invariant
      [of ?bad widget_request ?r2 "\<lparr>order_id = 999\<rparr>", THEN conjunct2, THEN conjunct1,
       rule_format, OF b]
  note sent = envelope_invariant
      [of ?bad widget_request ?r2 "\<lparr>order_id = 999\<rparr>" ?rq "JObj [(''order_id'', JInt 999)]"
          lax_validators 200 ?content, THEN conjunct2, THEN conjunct2, rule_format, OF c]
  from create have \<open>json_loads ?ok ''{"id": 1}'' = Inr (JObj [(''id'', JInt 1)])\<close>
    by (simp add: sample_env_def)
  moreover from status have "try_block_raises ?bad (get_order_status ?bad 999) = Some not_found"
    by (auto simp: sample_env_def try_block_raises_def)
  ultimately show ?thesis
    using a b c sent by simp
qed

text \<open>
  The claim as first stated asks for a non-empty \<^verbatim>\<open>data\<close> whenever \<^verbatim>\<open>success\<close> is
  true. A delegated call that returns the text \<^verbatim>\<open>{}\<close> gives a success envelope whose
  \<^verbatim>\<open>data\<close> is empty.
\<close>

theorem envelope_empty_data_counterexample:
  \<open>validate_CreateOrderRequest lax_validators widget_body = Inr widget_request
   \<and> json_loads (sample_env (Inr ''{}'')) ''{}'' = Inr (JObj [])
   \<and> snd (create_order_endpoint (sample_env (Inr ''{}'')) widget_request) =
      Inr \<lparr>success = True, data = [], error = None\<rparr>\<close>
  by (simp add: validate_widget_body create_order_endpoint_def sample_env_def
      sample_json_loads_def)

section \<open>Line items are forwarded unchanged\<close>

text \<open>
  C4. The handler calls the delegated \<^verbatim>\<open>create_order\<close> once, with one mapping per
  line item of the request, in the request's order; the mapping of the i-th item holds
  that item's \<^verbatim>\<open>variant_id\<close>, \<^verbatim>\<open>quantity\<close>, \<^verbatim>\<open>title\<close> and \<^verbatim>\<open>price\<close>, and the
  other three arguments are the request's. The witness is the line item
  \<^verbatim>\<open>{variant_id: 12345, quantity: 1, title: "Widget", price: 9.99}\<close>, from the body
  to the call.
\<close>

theorem line_items_forwarded:
  "\<exists>forwarded.
     fst (create_order_endpoint env req) =
       [CreateOrderCall forwarded (customer_email req) (financial_status req) (test req)]
     \<and> length forwarded = length (line_items req)
     \<and> (\<forall>i < length (line_items req).
          forwarded ! i =
            JObj [(''variant_id'', JInt (variant_id (line_items req ! i))),
                  (''quantity'', JInt (quantity (line_items req ! i))),
                  (''title'', JStr (title (line_items req ! i))),
                  (''price'', JFloat (price (line_items req ! i)))])"
  by (simp add: fst_create_order_endpoint LineItem_model_dump_def)

theorem line_items_forwarded_witness:
  "fst (app lax_validators (sample_env (Inr ''{}'')) (POST_orders_create widget_body)) =
     [CreateOrderCall
        [JObj [(''variant_id'', JInt 12345), (''quantity'', JInt 1),
               (''title'', JStr ''Widget''), (''price'', JFloat 9.99)]]
        ''customer@example.com'' ''paid'' True]"
proof -
  from line_items_forwarded [of "sample_env (Inr ''{}'')" widget_request]
  obtain forwarded where
    calls: "fst (create_order_endpoint (sample_env (Inr ''{}'')) widget_request) =
       [CreateOrderCall forwarded (customer_email widget_request)
          (financial_status widget_request) (test widget_request)]"
    and len: "length forwarded = length (line_items widget_request)"
    and nth: "\<forall>i < length (line_items widget_request).
          forwarded ! i =
            JObj [(''variant_id'', JInt (variant_id (line_items widget_request ! i))),
                  (''quantity'', JInt (quantity (line_items widget_request ! i))),
                  (''title'', JStr (title (line_items widget_request ! i))),
                  (''price'', JFloat (price (line_items widget_request ! i)))]"
    by blast
  from len have "length forwarded = 1"
    by (simp add: widget_request_def)
  then obtain x where fwd: "forwarded = [x]"
    by (cases forwarded) auto
  from nth have "forwarded ! 0 =
      JObj [(''variant_id'', JInt 12345), (''quantity'', JInt 1),
            (''title'', JStr ''Widget''), (''price'', JFloat 9.99)]"
    by (simp add: widget_request_def)
  with fwd calls show ?thesis
    by (simp add: app_def validate_widget_body fst_respond widget_request_def)
qed

section \<open>The health check\<close>

text \<open>
  C7. \<^verbatim>\<open>GET /health\<close> is answered with \<^verbatim>\<open>{"status": "healthy"}\<close> and status 200, in
  every environment, and no delegated call is made.
\<close>

theorem health_check_healthy:
  "app V env GET_health = ([], JSONResponse 200 (JObj [(''status'', JStr ''healthy'')]))"
  by (simp add: app_def health_check_def)

section \<open>Structural validation: rejection\<close>

lemma isl_leaf: "isl (leaf val loc v) = isl (val v)"
  by (simp add: leaf_def split: sum.splits)

lemma isl_required_leaf:
  "isl (required_field (leaf val) loc kvs k) = (missing kvs k \<or> rejects val kvs k)"
  by (simp add: required_field_def missing_def rejects_def isl_leaf split: option.splits)

lemma isl_optional_leaf:
  "isl (optional_field (leaf val) loc kvs k d) = rejects val kvs k"
  by (simp add: optional_field_def rejects_def isl_leaf split: option.splits)

lemma isl_validated4:
  "isl (validated4 a b c d model) = (isl a \<or> isl b \<or> isl c \<or> isl d)"
  by (cases a; cases b; cases c; cases d) (simp_all add: validated4_def)

lemma validated4_Inr:
  "validated4 a b c d model = Inr m \<longleftrightarrow>
     (\<exists>a' b' c' d'. a = Inr a' \<and> b = Inr b' \<and> c = Inr c' \<and> d = Inr d' \<and> m = model a' b' c' d')"
  by (cases a; cases b; cases c; cases d) (auto simp: validated4_def)

lemma isl_validate_LineItem:
  "isl (validate_LineItem V loc j) = invalid_LineItem V j"
  by (cases j)
     (auto simp: validate_LineItem_def isl_validated4 isl_required_leaf isl_optional_leaf)

lemma isl_validate_items:
  "isl (validate_items V loc i js) = list_ex (invalid_LineItem V) js"
proof (induction js arbitrary: i)
  case Nil
  show ?case by simp
next
  case (Cons j js)
  have "isl (validate_items V loc i (j # js)) =
      (isl (validate_LineItem V (loc @ [Index i]) j) \<or> isl (validate_items V loc (Suc i) js))"
    by (simp split: sum.splits)
  with Cons.IH [of "Suc i"] show ?case
    by (simp add: isl_validate_LineItem)
qed

lemma isl_validate_line_items:
  "isl (validate_line_items V loc j) = invalid_line_items V j"
  by (cases j) (simp_all add: validate_line_items_def isl_validate_items)

lemma isl_validate_CreateOrderRequest:
  "isl (validate_CreateOrderRequest V body) = invalid_create_order_body V body"
proof (cases body)
  case (JObj kvs)
  have "isl (required_field (validate_line_items V) [Field ''body''] kvs ''line_items'') =
      (missing kvs ''line_items''
       \<or> (case map_of kvs ''line_items'' of None \<Rightarrow> False | Some j \<Rightarrow> invalid_line_items V j))"
    by (simp add: required_field_def missing_def isl_validate_line_items split: option.splits)
  with JObj show ?thesis
    by (auto simp: validate_CreateOrderRequest_def isl_validated4 isl_required_leaf
        isl_optional_leaf)
qed (simp_all add: validate_CreateOrderRequest_def)

lemma reports_leaf: "reports (leaf val loc v)"
  by (simp add: reports_def leaf_def split: sum.splits)

lemma reports_required: "(\<And>l v. reports (val l v)) \<Longrightarrow> reports (required_field val loc kvs k)"
  by (simp add: required_field_def reports_def split: option.splits)

lemma reports_optional: "(\<And>l v. reports (val l v)) \<Longrightarrow> reports (optional_field val loc kvs k d)"
  by (simp add: optional_field_def reports_def split: option.splits)

lemma reports_validated4:
  "reports a \<Longrightarrow> reports b \<Longrightarrow> reports c \<Longrightarrow> reports d \<Longrightarrow> reports (validated4 a b c d model)"
  by (cases a; cases b; cases c; cases d) (simp_all add: validated4_def reports_def)

lemma reports_validate_LineItem: "reports (validate_LineItem V loc j)"
proof (cases j)
  case (JObj kvs)
  then show ?thesis
    by (simp add: validate_LineItem_def reports_validated4 reports_required reports_optional
        reports_leaf)
qed (simp_all add: validate_LineItem_def reports_def)

lemma reports_validate_items: "reports (validate_items V loc i js)"
proof (induction js arbitrary: i)
  case Nil
  show ?case by (simp add: reports_def)
next
  case (Cons j js)
  from reports_validate_LineItem [of V "loc @ [Index i]" j] Cons.IH [of "Suc i"]
  show ?case
    by (auto simp: reports_def split: sum.splits)
qed

lemma reports_validate_line_items: "reports (validate_line_items V loc j)"
  by (cases j) (simp_all add: validate_line_items_def reports_validate_items, simp_all add: reports_def)

lemma reports_validate_CreateOrderRequest: "reports (validate_CreateOrderRequest V body)"
proof (cases body)
  case (JObj kvs)
  then show ?thesis
    by (simp add: validate_CreateOrderRequest_def reports_validated4 reports_required
        reports_optional reports_leaf reports_validate_line_items)
qed (simp_all add: validate_CreateOrderRequest_def reports_def)

lemma validation_failure_rejected:
  assumes "invalid_create_order_body V body"
  shows "\<exists>es. es \<noteq> [] \<and> app V env (POST_orders_create body) = ([], RequestValidationError es)"
proof -
  from assms have "isl (validate_CreateOrderRequest V body)"
    by (simp add: isl_validate_CreateOrderRequest)
  then obtain es where es: "validate_CreateOrderRequest V body = Inl es"
    by (cases "validate_CreateOrderRequest V body") auto
  with reports_validate_CreateOrderRequest [of V body] have "es \<noteq> []"
    by (simp add: reports_def)
  with es show ?thesis
    by (simp add: app_def)
qed

text \<open>
  A value that cannot be read as the declared type is refused by a validator that
  refuses all such values; so a malformed body is one on which validation fails.
\<close>

lemma carries_rejects:
  assumes "\<And>v. bad v \<Longrightarrow> isl (val v)" and "carries bad kvs k"
  shows "rejects val kvs k"
  using assms by (auto simp: carries_def rejects_def split: option.splits)

lemma malformed_LineItem_invalid:
  assumes "rejects_uncoercible V" and "malformed_LineItem j"
  shows "invalid_LineItem V j"
proof (cases j)
  case (JObj kvs)
  from assms(1) have
    "\<And>k. carries uncoercible_int kvs k \<Longrightarrow> rejects (int_validator V) kvs k"
    "\<And>k. carries uncoercible_str kvs k \<Longrightarrow> rejects (str_validator V) kvs k"
    "\<And>k. carries uncoercible_float kvs k \<Longrightarrow> rejects (float_validator V) kvs k"
    by (auto simp: rejects_uncoercible_def intro: carries_rejects)
  with assms(2) JObj show ?thesis
    by auto
qed simp_all

lemma malformed_line_items_invalid:
  assumes "rejects_uncoercible V" and "malformed_line_items j"
  shows "invalid_line_items V j"
proof (cases j)
  case (JArr js)
  with assms show ?thesis
    by (auto simp: list_ex_iff intro: malformed_LineItem_invalid)
qed simp_all

lemma malformed_body_invalid:
  assumes "rejects_uncoercible V" and "malformed_create_order_body body"
  shows "invalid_create_order_body V body"
proof (cases body)
  case (JObj kvs)
  have items: "carries malformed_line_items kvs ''line_items'' \<Longrightarrow>
      (case map_of kvs ''line_items'' of None \<Rightarrow> False | Some j \<Rightarrow> invalid_line_items V j)"
    using assms(1)
    by (cases "map_of kvs ''line_items''")
       (simp_all add: carries_def malformed_line_items_invalid)
  from assms(1) have str: "\<And>v. uncoercible_str v \<Longrightarrow> isl (str_validator V v)"
    and bool: "\<And>v. uncoercible_bool v \<Longrightarrow> isl (bool_validator V v)"
    by (simp_all add: rejects_uncoercible_def)
  from assms(2) JObj have
    "missing kvs ''line_items'' \<or> missing kvs ''customer_email''
      \<or> carries malformed_line_items kvs ''line_items''
      \<or> carries uncoercible_str kvs ''customer_email''
      \<or> carries uncoercible_str kvs ''financial_status''
      \<or> carries uncoercible_bool kvs ''test''"
    by simp
  then have
    "missing kvs ''line_items'' \<or> missing kvs ''customer_email''
      \<or> (case map_of kvs ''line_items'' of None \<Rightarrow> False | Some j \<Rightarrow> invalid_line_items V j)
      \<or> rejects (str_validator V) kvs ''customer_email''
      \<or> rejects (str_validator V) kvs ''financial_status''
      \<or> rejects (bool_validator V) kvs ''test''"
    using items carries_rejects [of uncoercible_str "str_validator V", OF str]
      carries_rejects [of uncoercible_bool "bool_validator V", OF bool]
    by blast
  with JObj show ?thesis
    by simp
qed simp_all

lemma lax_validators_reject_uncoercible:
  "rejects_uncoercible lax_validators"
proof -
  have "uncoercible_int v \<Longrightarrow> isl (lax_int v)" for v
    by (cases v) (simp_all add: lax_int_def)
  moreover have "uncoercible_str v \<Longrightarrow> isl (lax_str v)" for v
    by (cases v) (simp_all add: lax_str_def)
  moreover have "uncoercible_float v \<Longrightarrow> isl (lax_float v)" for v
    by (cases v) (simp_all add: lax_float_def)
  moreover have "uncoercible_bool v \<Longrightarrow> isl (lax_bool v)" for v
    by (cases v) (simp_all add: lax_bool_def)
  ultimately show ?thesis
    by (simp add: rejects_uncoercible_def lax_validators_def)
qed

text \<open>
  C6 (as amended). A create-order body that is not an object, that misses
  \<^verbatim>\<open>customer_email\<close> or \<^verbatim>\<open>line_items\<close>, or that carries under a declared key a value
  that cannot be read as the declared type (\<^verbatim>\<open>null\<close>, a list or an object for a
  scalar; a non-string for a string; a float with a fractional part for an integer; a
  non-list for \<^verbatim>\<open>line_items\<close>; a list element that is not an object or misses
  \<^verbatim>\<open>variant_id\<close> or \<^verbatim>\<open>quantity\<close>) is rejected by validation: the answer is the
  validation failure (status 422) with at least one error, not an envelope, and the
  handler does not run, so no delegated call is made. The leaf validators are any that
  refuse the values listed, as the library's do.
\<close>

theorem malformed_body_rejected:
  assumes "rejects_uncoercible V"
      and "malformed_create_order_body body"
  shows "\<exists>es. es \<noteq> [] \<and> app V env (POST_orders_create body) = ([], RequestValidationError es)"
  using assms by (intro validation_failure_rejected malformed_body_invalid)

theorem malformed_body_rejected_witness:
  "(\<exists>es. es \<noteq> [] \<and>
         app lax_validators (sample_env (Inr ''{}''))
           (POST_orders_create (JObj [(''line_items'', JArr [])])) =
         ([], RequestValidationError es))
   \<and> (\<exists>es. es \<noteq> [] \<and>
         app lax_validators (sample_env (Inr ''{}''))
           (POST_orders_create (JObj [(''customer_email'', JStr ''customer@example.com'')])) =
         ([], RequestValidationError es))
   \<and> (\<exists>es. es \<noteq> [] \<and>
         app lax_validators (sample_env (Inr ''{}''))
           (POST_orders_create
              (JObj [(''line_items'', JArr []), (''customer_email'', JInt 5)])) =
         ([], RequestValidationError es))
   \<and> (\<exists>es. es \<noteq> [] \<and>
         app lax_validators (sample_env (Inr ''{}''))
           (POST_orders_create
              (JObj [(''line_items'',
                        JArr [JObj [(''variant_id'', JInt 12345), (''quantity'', JNull)]]),
                     (''customer_email'', JStr ''customer@example.com'')])) =
         ([], RequestValidationError es))"
proof -
  have a: "malformed_create_order_body (JObj [(''line_items'', JArr [])])"
    by (simp add: missing_def)
  have b: "malformed_create_order_body (JObj [(''customer_email'', JStr ''customer@example.com'')])"
    by (simp add: missing_def)
  have c: "malformed_create_order_body
      (JObj [(''line_items'', JArr []), (''customer_email'', JInt 5)])"
    by (simp add: missing_def carries_def)
  have d: "malformed_create_order_body
      (JObj [(''line_items'', JArr [JObj [(''variant_id'', JInt 12345), (''quantity'', JNull)]]),
             (''customer_email'', JStr ''customer@example.com'')])"
    by (simp add: missing_def carries_def)
  note rejected = malformed_body_rejected [OF lax_validators_reject_uncoercible]
  from rejected [OF a] rejected [OF b] rejected [OF c] rejected [OF d]
  show ?thesis
    by (intro conjI)
qed

text \<open>
  The claim as first stated has every body with a wrong-typed field rejected. A body
  whose \<^verbatim>\<open>quantity\<close> is the string \<^verbatim>\<open>"2"\<close>, where an integer is declared, passes
  validation with the quantity 2, and the handler runs and calls the delegated
  \<^verbatim>\<open>create_order\<close>.
\<close>

theorem coerced_body_accepted_counterexample:
  "app lax_validators (sample_env (Inr ''{}'')) (POST_orders_create coerced_body) =
     ([CreateOrderCall
         [JObj [(''variant_id'', JInt 12345), (''quantity'', JInt 2),
                (''title'', JStr ''Product''), (''price'', JFloat 0)]]
         ''customer@example.com'' ''paid'' True],
      JSONResponse 200
        (JObj [(''success'', JBool True), (''data'', JObj []), (''error'', JNull)]))"
  by (simp add: app_def coerced_body_def validate_defs respond_def create_order_endpoint_def
      LineItem_model_dump_def OrderResponse_model_dump_def sample_defs)

section \<open>Structural validation: defaults\<close>

lemma validate_items_Inr:
  "validate_items V loc i js = Inr xs \<Longrightarrow>
     length xs = length js
     \<and> (\<forall>k < length js. validate_LineItem V (loc @ [Index (i + k)]) (js ! k) = Inr (xs ! k))"
proof (induction js arbitrary: i xs)
  case Nil
  then show ?case by simp
next
  case (Cons j js)
  from Cons.prems obtain y ys where
    y: "validate_LineItem V (loc @ [Index i]) j = Inr y"
    and ys: "validate_items V loc (Suc i) js = Inr ys"
    and xs: "xs = y # ys"
    by (auto split: sum.splits)
  from Cons.IH [OF ys] have len: "length ys = length js"
    and nth: "\<And>k. k < length js \<Longrightarrow>
        validate_LineItem V (loc @ [Index (Suc i + k)]) (js ! k) = Inr (ys ! k)"
    by simp_all
  show ?case
  proof (intro conjI allI impI)
    show "length xs = length (j # js)"
      using xs len by simp
  next
    fix k
    assume "k < length (j # js)"
    then show "validate_LineItem V (loc @ [Index (i + k)]) ((j # js) ! k) = Inr (xs ! k)"
      using y nth xs by (cases k) simp_all
  qed
qed

lemma validate_LineItem_defaults:
  assumes "validate_LineItem V loc j = Inr item"
  shows "\<exists>kvs. j = JObj kvs
           \<and> (missing kvs ''title'' \<longrightarrow> title item = ''Product'')
           \<and> (missing kvs ''price'' \<longrightarrow> price item = 0)"
proof (cases j)
  case (JObj kvs)
  with assms show ?thesis
    by (auto simp: validate_LineItem_def validated4_Inr optional_field_def missing_def)
qed (use assms in \<open>simp_all add: validate_LineItem_def\<close>)

lemma validate_line_items_Inr:
  assumes "validate_line_items V loc j = Inr xs"
  shows "\<exists>js. j = JArr js \<and> validate_items V loc 0 js = Inr xs"
  using assms by (cases j) (simp_all add: validate_line_items_def)

lemma app_validated:
  assumes "validate_CreateOrderRequest V body = Inr req"
  shows "fst (app V env (POST_orders_create body)) =
           [CreateOrderCall (map LineItem_model_dump (line_items req)) (customer_email req)
              (financial_status req) (test req)]"
  using assms by (simp add: app_def fst_respond fst_create_order_endpoint)

lemma validate_bare_body:
  "validate_CreateOrderRequest lax_validators bare_body = Inr bare_request"
  by (simp add: validate_defs bare_body_def bare_request_def)

text \<open>
  C8. In a request that passed validation, a line item whose body left out \<^verbatim>\<open>title\<close>
  has the title "Product", one that left out \<^verbatim>\<open>price\<close> has the price 0.0, and a body
  that left out \<^verbatim>\<open>financial_status\<close> or \<^verbatim>\<open>test\<close> has "paid" or true; the delegated
  call receives the request with these defaults.
\<close>

theorem defaults_applied:
  assumes "validate_CreateOrderRequest V body = Inr req"
  shows "\<exists>kvs js.
           body = JObj kvs \<and> map_of kvs ''line_items'' = Some (JArr js)
           \<and> length (line_items req) = length js
           \<and> (\<forall>i < length js. \<exists>item.
                 js ! i = JObj item
                 \<and> (missing item ''title'' \<longrightarrow> title (line_items req ! i) = ''Product'')
                 \<and> (missing item ''price'' \<longrightarrow> price (line_items req ! i) = 0))
           \<and> (missing kvs ''financial_status'' \<longrightarrow> financial_status req = ''paid'')
           \<and> (missing kvs ''test'' \<longrightarrow> test req)
           \<and> fst (app V env (POST_orders_create body)) =
                [CreateOrderCall (map LineItem_model_dump (line_items req)) (customer_email req)
                   (financial_status req) (test req)]"
proof (cases body)
  case (JObj kvs)
  with assms obtain l c f t where
    l: "required_field (validate_line_items V) [Field ''body''] kvs ''line_items'' = Inr l"
    and f: "optional_field (leaf (str_validator V)) [Field ''body''] kvs ''financial_status''
              ''paid'' = Inr f"
    and t: "optional_field (leaf (bool_validator V)) [Field ''body''] kvs ''test'' True = Inr t"
    and req: "req = \<lparr>line_items = l, customer_email = c, financial_status = f, test = t\<rparr>"
    by (auto simp: validate_CreateOrderRequest_def validated4_Inr)
  from l obtain j where j: "map_of kvs ''line_items'' = Some j"
    and vj: "validate_line_items V [Field ''body'', Field ''line_items''] j = Inr l"
    by (auto simp: required_field_def split: option.splits)
  from validate_line_items_Inr [OF vj] obtain js where js: "j = JArr js"
    and items: "validate_items V [Field ''body'', Field ''line_items''] 0 js = Inr l"
    by blast
  from validate_items_Inr [OF items] have len: "length l = length js"
    and nth: "\<And>k. k < length js \<Longrightarrow>
        validate_LineItem V ([Field ''body'', Field ''line_items''] @ [Index (0 + k)]) (js ! k) =
          Inr (l ! k)"
    by simp_all
  have each: "\<forall>i < length js. \<exists>item.
                 js ! i = JObj item
                 \<and> (missing item ''title'' \<longrightarrow> title (l ! i) = ''Product'')
                 \<and> (missing item ''price'' \<longrightarrow> price (l ! i) = 0)"
    using validate_LineItem_defaults [OF nth] by blast
  from f have fs: "missing kvs ''financial_status'' \<longrightarrow> f = ''paid''"
    by (auto simp: optional_field_def missing_def)
  from t have ts: "missing kvs ''test'' \<longrightarrow> t"
    by (auto simp: optional_field_def missing_def)
  from JObj j js len each fs ts req app_validated [OF assms] show ?thesis
    by simp
qed (use assms in \<open>simp_all add: validate_CreateOrderRequest_def\<close>)

theorem defaults_applied_witness:
  "validate_CreateOrderRequest lax_validators bare_body = Inr bare_request
   \<and> fst (app lax_validators (sample_env (Inr ''{}'')) (POST_orders_create bare_body)) =
       [CreateOrderCall
          [JObj [(''variant_id'', JInt 12345), (''quantity'', JInt 2),
                 (''title'', JStr ''Product''), (''price'', JFloat 0)]]
          ''customer@example.com'' ''paid'' True]"
proof -
  from defaults_applied [OF validate_bare_body, of "sample_env (Inr ''{}'')"]
  have "fst (app lax_validators (sample_env (Inr ''{}'')) (POST_orders_create bare_body)) =
      [CreateOrderCall (map LineItem_model_dump (line_items bare_request))
         (customer_email bare_request) (financial_status bare_request) (test bare_request)]"
    by blast
  with validate_bare_body show ?thesis
    by (simp add: bare_request_def LineItem_model_dump_def)
qed

section \<open>Structural validation: what is not checked\<close>

text \<open>
  C9. A body whose \<^verbatim>\<open>line_items\<close> is the empty list, and whose other fields are
  accepted, passes validation, and the handler calls the delegated \<^verbatim>\<open>create_order\<close>
  with the empty list. A line item is accepted with whatever integer its \<^verbatim>\<open>quantity\<close>
  validates to: the gateway checks neither non-emptiness nor positivity.
\<close>

theorem empty_line_items_accepted:
  "(map_of kvs ''line_items'' = Some (JArr []) \<and> \<not> missing kvs ''customer_email''
      \<and> \<not> rejects (str_validator V) kvs ''customer_email''
      \<and> \<not> rejects (str_validator V) kvs ''financial_status''
      \<and> \<not> rejects (bool_validator V) kvs ''test''
     \<longrightarrow> (\<exists>req. validate_CreateOrderRequest V (JObj kvs) = Inr req \<and> line_items req = []
            \<and> fst (app V env (POST_orders_create (JObj kvs))) =
                [CreateOrderCall [] (customer_email req) (financial_status req) (test req)]))
   \<and> (int_validator V vj = Inr v \<and> int_validator V qj = Inr q
     \<longrightarrow> validate_LineItem V loc (JObj [(''variant_id'', vj), (''quantity'', qj)]) =
           Inr \<lparr>variant_id = v, quantity = q, title = ''Product'', price = 0\<rparr>)"
proof (intro conjI impI)
  assume h: "map_of kvs ''line_items'' = Some (JArr []) \<and> \<not> missing kvs ''customer_email''
      \<and> \<not> rejects (str_validator V) kvs ''customer_email''
      \<and> \<not> rejects (str_validator V) kvs ''financial_status''
      \<and> \<not> rejects (bool_validator V) kvs ''test''"
  then have "\<not> invalid_create_order_body V (JObj kvs)"
    by (simp add: missing_def)
  then obtain req where req: "validate_CreateOrderRequest V (JObj kvs) = Inr req"
    by (cases "validate_CreateOrderRequest V (JObj kvs)")
       (simp_all flip: isl_validate_CreateOrderRequest)
  from req h have "line_items req = []"
    by (auto simp: validate_CreateOrderRequest_def validated4_Inr required_field_def
        validate_line_items_def)
  with req app_validated [OF req, of env]
  show "\<exists>req. validate_CreateOrderRequest V (JObj kvs) = Inr req \<and> line_items req = []
            \<and> fst (app V env (POST_orders_create (JObj kvs))) =
                [CreateOrderCall [] (customer_email req) (financial_status req) (test req)]"
    by auto
next
  assume "int_validator V vj = Inr v \<and> int_validator V qj = Inr q"
  then show "validate_LineItem V loc (JObj [(''variant_id'', vj), (''quantity'', qj)]) =
           Inr \<lparr>variant_id = v, quantity = q, title = ''Product'', price = 0\<rparr>"
    by (simp add: validate_LineItem_def validated4_def required_field_def optional_field_def
        leaf_def)
qed

theorem empty_line_items_accepted_witness:
  "fst (app lax_validators (sample_env (Inr ''{}'')) (POST_orders_create empty_order_body)) =
     [CreateOrderCall [] ''customer@example.com'' ''paid'' True]
   \<and> validate_LineItem lax_validators [Field ''body'', Field ''line_items'', Index 0]
        (JObj [(''variant_id'', JInt 12345), (''quantity'', JInt (- 5))]) =
       Inr \<lparr>variant_id = 12345, quantity = - 5, title = ''Product'', price = 0\<rparr>"
proof -
  let ?kvs = "[(''line_items'', JArr []), (''customer_email'', JStr ''customer@example.com'')]"
  have h: "map_of ?kvs ''line_items'' = Some (JArr []) \<and> \<not> missing ?kvs ''customer_email''
      \<and> \<not> rejects (str_validator lax_validators) ?kvs ''customer_email''
      \<and> \<not> rejects (str_validator lax_validators) ?kvs ''financial_status''
      \<and> \<not> rejects (bool_validator lax_validators) ?kvs ''test''"
    by (simp add: missing_def rejects_def lax_validators_def lax_str_def)
  have i: "int_validator lax_validators (JInt 12345) = Inr 12345
      \<and> int_validator lax_validators (JInt (- 5)) = Inr (- 5)"
    by (simp add: lax_validators_def lax_int_def)
  have v: "validate_CreateOrderRequest lax_validators (JObj ?kvs) =
      Inr \<lparr>line_items = [], customer_email = ''customer@example.com'',
           financial_status = ''paid'', test = True\<rparr>"
    by (simp add: validate_defs)
  from empty_line_items_accepted
         [of ?kvs lax_validators "sample_env (Inr ''{}'')" "JInt 12345" 12345 "JInt (- 5)" "- 5"
            "[Field ''body'', Field ''line_items'', Index 0]"] h i v
  show ?thesis
    by (auto simp: empty_order_body_def)
qed

end
